theory Spec2Isabelle
  imports Complex_Main "HOL-Library.Sublist" "HOL-Library.Multiset"
begin

section \<open>Errors\<close>

text \<open>
  The exceptions of the knowledge base service (part_001, lines 91-117) and the ones its
  runtime raises.  A function that can throw returns \<open>error + 'a\<close>, with \<open>Inl\<close>
  for the exception.
\<close>

datatype error =
    Error                \<comment> \<open>a plain \<open>new Error(...)\<close>\<close>
  | TypeError            \<comment> \<open>property access on null, a call of a non-function\<close>
  | SqliteError          \<comment> \<open>raised by the database driver\<close>
  | CollaboratorError    \<comment> \<open>a rejected call of the completion or vector service\<close>
  | KnowledgeBaseError
  | FileProcessingError
  | DatabaseError
  | EmbeddingError

section \<open>Cosine similarity\<close>

text \<open>
  \<open>cosineSimilarity\<close> (part_001, lines 1652-1672).  The loop runs over the indices of
  \<open>vecA\<close>; it is only reached when both vectors have the same length, so it is a
  recursion over both lists.  JavaScript numbers are read as real numbers.
\<close>

fun cosine_loop :: "real list \<Rightarrow> real list \<Rightarrow> real \<times> real \<times> real \<Rightarrow> real \<times> real \<times> real" where
  "cosine_loop (a # as) (b # bs) (dotProduct, normA, normB) =
     cosine_loop as bs (dotProduct + a * b, normA + a * a, normB + b * b)"
| "cosine_loop _ _ acc = acc"

definition cosineSimilarity :: "real list \<Rightarrow> real list \<Rightarrow> error + real" where
  "cosineSimilarity vecA vecB =
     (if length vecA \<noteq> length vecB then Inl Error
      else (case cosine_loop vecA vecB (0, 0, 0) of
              (dotProduct, normA, normB) \<Rightarrow>
                if normA = 0 \<or> normB = 0 then Inr 0
                else Inr (dotProduct / (sqrt normA * sqrt normB))))"

section \<open>Strings\<close>

text \<open>
  A JavaScript string is a sequence of code units; the model takes the code units below
  256, one \<open>char\<close> each, so \<open>length\<close> is the string's \<open>.length\<close>.  \<open>is_space\<close> is the
  class \<open>\s\<close> of regular expressions, which is also what \<open>trim\<close> strips, on these code
  units: tab, line feed, vertical tab, form feed, carriage return, space and no-break
  space.
\<close>

abbreviation newline :: char where
  "newline \<equiv> CHR 0x0A"

definition is_space :: "char \<Rightarrow> bool" where
  "is_space c \<longleftrightarrow>
     c = CHR 0x09 \<or> c = newline \<or> c = CHR 0x0B \<or> c = CHR 0x0C \<or> c = CHR 0x0D \<or>
     c = CHR '' '' \<or> c = CHR 0xA0"

definition trim :: "string \<Rightarrow> string" where
  "trim s = rev (dropWhile is_space (rev (dropWhile is_space s)))"

text \<open>\<open>s.split(' ')\<close>: the pieces between the occurrences of one character.\<close>

fun split_on :: "char \<Rightarrow> string \<Rightarrow> string list" where
  "split_on sep [] = [[]]"
| "split_on sep (c # cs) =
     (if c = sep then [] # split_on sep cs
      else (case split_on sep cs of w # ws \<Rightarrow> (c # w) # ws | [] \<Rightarrow> [[c]]))"

text \<open>\<open>words.join(sep)\<close>.\<close>

fun join :: "string \<Rightarrow> string list \<Rightarrow> string" where
  "join sep [] = []"
| "join sep [w] = w"
| "join sep (w # ws) = w @ sep @ join sep ws"

text \<open>A number in a template string: its decimal digits.\<close>

fun string_of_nat :: "nat \<Rightarrow> string" where
  "string_of_nat n =
     (if n < 10 then [''0123456789'' ! n]
      else string_of_nat (n div 10) @ [''0123456789'' ! (n mod 10)])"

declare string_of_nat.simps [simp del]

subsection \<open>Splitting into paragraphs\<close>

text \<open>
  \<open>content.split(/\n\s*\n/)\<close>.  A separator starts at a line feed; \<open>\s*\<close> is greedy, so
  the separator reaches to the last line feed of the white space that follows, and there
  is none when that white space holds no line feed.  \<open>after_separator cs\<close> is given the
  text after the first line feed and returns what follows the separator.
\<close>

fun after_separator :: "string \<Rightarrow> string option" where
  "after_separator [] = None"
| "after_separator (c # cs) =
     (if \<not> is_space c then None
      else (case after_separator cs of
              Some r \<Rightarrow> Some r
            | None \<Rightarrow> if c = newline then Some cs else None))"

function split_paragraphs :: "string \<Rightarrow> string list" where
  "split_paragraphs [] = [[]]"
| "split_paragraphs (c # cs) =
     (case (if c = newline then after_separator cs else None) of
        Some r \<Rightarrow> [] # split_paragraphs r
      | None \<Rightarrow> (case split_paragraphs cs of p # ps \<Rightarrow> (c # p) # ps | [] \<Rightarrow> [[c]]))"
  by pat_completeness auto
termination
proof (relation "measure length")
  fix c cs r
  assume "(if c = newline then after_separator cs else None) = Some r"
  then have "after_separator cs = Some r" by (simp split: if_splits)
  then have "length r < length cs"
    by (induction cs arbitrary: r) (auto split: if_splits option.splits)
  then show "(r, c # cs) \<in> measure length" by simp
qed simp_all

section \<open>Documents and chunks\<close>

datatype DocumentType = Pdf | Excel | Csv | Word | Text | Markdown | Unknown

fun type_name :: "DocumentType \<Rightarrow> string" where
  "type_name Pdf = ''pdf''"
| "type_name Excel = ''excel''"
| "type_name Csv = ''csv''"
| "type_name Word = ''word''"
| "type_name Text = ''text''"
| "type_name Markdown = ''markdown''"
| "type_name Unknown = ''unknown''"

text \<open>
  \<open>DocumentMetadata\<close> (lines 25-40); dates are milliseconds since the epoch.  The fields
  \<open>id\<close>, \<open>type\<close> and \<open>size\<close> carry a prefix.
\<close>

record DocumentMetadata =
  doc_id :: string
  title :: string
  path :: string
  doc_type :: DocumentType
  doc_size :: nat
  created :: nat
  modified :: nat
  indexed :: nat
  author :: "string option"
  tags :: "string list option"
  summary :: "string option"
  keyPoints :: "string list option"
  pageCount :: "nat option"
  wordCount :: "nat option"

text \<open>
  \<open>DocumentChunk\<close> (lines 42-49).  The only metadata object the service builds for a
  chunk is \<open>{title, type}\<close>, so \<open>chunk_metadata\<close> is that pair.
\<close>

record DocumentChunk =
  chunk_id :: string
  documentId :: string
  content :: string
  index :: nat
  embedding :: "real list option"
  chunk_metadata :: "string \<times> DocumentType"

record config =
  chunkSize :: nat
  chunkOverlap :: nat
  maxConcurrentProcessing :: nat

text \<open>
  The constructor (lines 139-168): \<open>options.x || default\<close>, so an option that is absent
  or 0 gives the default.
\<close>

definition make_config :: "nat option \<Rightarrow> nat option \<Rightarrow> nat option \<Rightarrow> config" where
  "make_config chunk overlap width =
     \<lparr>chunkSize = (case chunk of Some n \<Rightarrow> if n = 0 then 1000 else n | None \<Rightarrow> 1000),
      chunkOverlap = (case overlap of Some n \<Rightarrow> if n = 0 then 200 else n | None \<Rightarrow> 200),
      maxConcurrentProcessing = (case width of Some n \<Rightarrow> if n = 0 then 5 else n | None \<Rightarrow> 5)\<rparr>"

section \<open>Chunking\<close>

text \<open>
  \<open>chunkDocument\<close> (lines 549-600).  \<open>new_chunk\<close> is the object pushed at lines 563-572
  and 587-596; \<open>overlap_words\<close> is lines 575-576.  The loop over the paragraphs is
  \<open>chunk_loop\<close>, with the loop variables \<open>currentChunk\<close> and \<open>chunkIndex\<close> as arguments and
  each \<open>chunks.push\<close> as the head of what the rest of the loop produces; its last
  equation is the flush after the loop (lines 586-597).
\<close>

definition new_chunk :: "DocumentMetadata \<Rightarrow> string \<Rightarrow> nat \<Rightarrow> DocumentChunk" where
  "new_chunk md currentChunk chunkIndex =
     \<lparr>chunk_id = ''chunk_'' @ doc_id md @ ''_'' @ string_of_nat chunkIndex,
      documentId = doc_id md,
      content = currentChunk,
      index = chunkIndex,
      embedding = None,
      chunk_metadata = (title md, doc_type md)\<rparr>"

definition overlap_words :: "nat \<Rightarrow> string \<Rightarrow> string" where
  "overlap_words n currentChunk =
     (let words = split_on CHR '' '' currentChunk
      in join '' '' (drop (length words - n) words))"

fun chunk_loop :: "config \<Rightarrow> DocumentMetadata \<Rightarrow> string list \<Rightarrow> string \<Rightarrow> nat \<Rightarrow> DocumentChunk list" where
  "chunk_loop cfg md [] currentChunk chunkIndex =
     (if trim currentChunk \<noteq> [] then [new_chunk md currentChunk chunkIndex] else [])"
| "chunk_loop cfg md (paragraph # rest) currentChunk chunkIndex =
     (if trim paragraph = [] then chunk_loop cfg md rest currentChunk chunkIndex
      else if length currentChunk + length paragraph > chunkSize cfg \<and> length currentChunk > 0
      then new_chunk md currentChunk chunkIndex #
           chunk_loop cfg md rest
             (overlap_words (chunkOverlap cfg) currentChunk @ '' '' @ paragraph)
             (chunkIndex + 1)
      else chunk_loop cfg md rest
             (currentChunk @ (if currentChunk \<noteq> [] then [newline, newline] else []) @ paragraph)
             chunkIndex)"

definition chunkDocument :: "config \<Rightarrow> string \<Rightarrow> DocumentMetadata \<Rightarrow> DocumentChunk list" where
  "chunkDocument cfg body md = chunk_loop cfg md (split_paragraphs body) [] 0"

section \<open>JSON values\<close>

text \<open>
  A value read by \<open>JSON.parse\<close>.  An expression that may be \<open>undefined\<close> is a
  \<open>json option\<close>.  \<open>truthy\<close> is the test of \<open>if (x)\<close> and \<open>x || y\<close>; \<open>property\<close> is
  \<open>x.k\<close>, which throws on \<open>null\<close>.
\<close>

datatype json =
    JNull
  | JBool bool
  | JNumber real
  | JString string
  | JArray "json list"
  | JObject "(string \<times> json) list"

fun truthy :: "json option \<Rightarrow> bool" where
  "truthy None = False"
| "truthy (Some JNull) = False"
| "truthy (Some (JBool b)) = b"
| "truthy (Some (JNumber x)) = (x \<noteq> 0)"
| "truthy (Some (JString s)) = (s \<noteq> [])"
| "truthy (Some (JArray xs)) = True"
| "truthy (Some (JObject kvs)) = True"

fun property :: "json \<Rightarrow> string \<Rightarrow> error + json option" where
  "property JNull k = Inl TypeError"
| "property (JObject kvs) k = Inr (map_of kvs k)"
| "property v k = Inr None"

text \<open>
  \<open>JSON.stringify\<close> of a string, of a list of strings and of the metadata object
  \<open>{title, type}\<close> of a chunk.
\<close>

definition json_escape :: "char \<Rightarrow> string" where
  "json_escape c =
     (if c = CHR 0x22 then [CHR 0x5C, CHR 0x22]
      else if c = CHR 0x5C then [CHR 0x5C, CHR 0x5C]
      else if c = CHR 0x08 then [CHR 0x5C, CHR ''b'']
      else if c = CHR 0x0C then [CHR 0x5C, CHR ''f'']
      else if c = newline then [CHR 0x5C, CHR ''n'']
      else if c = CHR 0x0D then [CHR 0x5C, CHR ''r'']
      else if c = CHR 0x09 then [CHR 0x5C, CHR ''t'']
      else if (of_char c :: nat) < 32
      then [CHR 0x5C, CHR ''u'', CHR ''0'', CHR ''0'',
            ''0123456789abcdef'' ! (of_char c div 16), ''0123456789abcdef'' ! (of_char c mod 16)]
      else [c])"

definition json_string :: "string \<Rightarrow> string" where
  "json_string s = [CHR 0x22] @ concat (map json_escape s) @ [CHR 0x22]"

definition json_string_list :: "string list \<Rightarrow> string" where
  "json_string_list xs = ''['' @ join '','' (map json_string xs) @ '']''"

definition stringify_metadata :: "string \<times> DocumentType \<Rightarrow> string" where
  "stringify_metadata m =
     ''{'' @ json_string ''title'' @ '':'' @ json_string (fst m) @ '','' @
     json_string ''type'' @ '':'' @ json_string (type_name (snd m)) @ ''}''"

section \<open>The database\<close>

text \<open>
  The tables of \<open>createSchema\<close> (lines 188-290), each a list of rows in the order of
  insertion.  A row of \<open>documents\<close> is its \<open>rowid\<close> and its columns; the columns are kept
  as a \<open>DocumentMetadata\<close>.  The full-text table \<open>documents_fts\<close> is read as a table
  with the columns the statements name: a row per \<open>rowid\<close>, removed by the \<open>'delete'\<close>
  command and added by an insert.
\<close>

record document_row =
  rowid :: nat
  columns :: DocumentMetadata

record chunk_row =
  chunk_row_id :: string
  document_id :: string
  chunk_content :: string
  index_num :: nat
  metadata_text :: "string option"

record fts_row =
  fts_rowid :: nat
  fts_title :: string
  fts_content :: string
  fts_tags :: string
  fts_summary :: string

record concept_row =
  concept_id :: string
  concept_name :: string
  concept_type :: string
  description :: "json option"
  frequency :: nat

record relationship_row =
  relationship_id :: string
  source_id :: string
  source_type :: string
  target_id :: string
  target_type :: string
  relationship_type :: string
  weight :: real

record store =
  documents :: "document_row list"
  document_chunks :: "chunk_row list"
  documents_fts :: "fts_row list"
  concepts :: "concept_row list"
  relationships :: "relationship_row list"

text \<open>
  A connection: the tables as the statements see them, and the tables at
  \<open>BEGIN TRANSACTION\<close> while a transaction is open.  \<open>BEGIN\<close> inside a transaction,
  and \<open>COMMIT\<close> or \<open>ROLLBACK\<close> outside one, are errors of the driver.
\<close>

record database =
  tables :: store
  snapshot :: "store option"

definition exec_begin :: "database \<Rightarrow> error + database" where
  "exec_begin d =
     (case snapshot d of
        Some s \<Rightarrow> Inl SqliteError
      | None \<Rightarrow> Inr (d\<lparr>snapshot := Some (tables d)\<rparr>))"

definition exec_commit :: "database \<Rightarrow> error + database" where
  "exec_commit d =
     (case snapshot d of
        None \<Rightarrow> Inl SqliteError
      | Some s \<Rightarrow> Inr (d\<lparr>snapshot := None\<rparr>))"

definition exec_rollback :: "database \<Rightarrow> error + database" where
  "exec_rollback d =
     (case snapshot d of
        None \<Rightarrow> Inl SqliteError
      | Some s \<Rightarrow> Inr \<lparr>tables = s, snapshot = None\<rparr>)"

subsection \<open>Saving a document\<close>

text \<open>
  \<open>saveDocumentMetadata\<close> (lines 712-793).  \<open>stored_columns\<close> are the bound values:
  \<open>x || null\<close> stores \<open>NULL\<close> for an empty string and for 0.  \<open>fts_of\<close> is the row the
  triggers and the statement of lines 782-788 insert into \<open>documents_fts\<close>: the title,
  an empty content, the tags and the summary.  The triggers \<open>documents_ai\<close> and
  \<open>documents_au\<close> (lines 244-259) run with the insert and the update:
  \<open>insert_document\<close> is lines 753-773 with the first, \<open>update_document\<close> lines 719-750 with
  the second, and \<open>refresh_fts\<close> the two statements of lines 776-788.  The column
  \<open>path\<close> is \<open>UNIQUE\<close>; a violation is the \<open>DatabaseError\<close> of line 791.
\<close>

definition stored_columns :: "DocumentMetadata \<Rightarrow> DocumentMetadata" where
  "stored_columns md =
     md\<lparr>author := (case author md of Some a \<Rightarrow> if a = [] then None else Some a | None \<Rightarrow> None),
        summary := (case summary md of Some a \<Rightarrow> if a = [] then None else Some a | None \<Rightarrow> None),
        pageCount := (case pageCount md of Some n \<Rightarrow> if n = 0 then None else Some n | None \<Rightarrow> None),
        wordCount := (case wordCount md of Some n \<Rightarrow> if n = 0 then None else Some n | None \<Rightarrow> None)\<rparr>"

definition fts_of :: "document_row \<Rightarrow> fts_row" where
  "fts_of r =
     \<lparr>fts_rowid = rowid r,
      fts_title = title (columns r),
      fts_content = [],
      fts_tags = (case tags (columns r) of Some ts \<Rightarrow> json_string_list ts | None \<Rightarrow> []),
      fts_summary = (case summary (columns r) of Some a \<Rightarrow> a | None \<Rightarrow> [])\<rparr>"

definition fts_delete :: "nat \<Rightarrow> fts_row list \<Rightarrow> fts_row list" where
  "fts_delete r rows = filter (\<lambda>x. fts_rowid x \<noteq> r) rows"

definition fts_insert :: "fts_row \<Rightarrow> fts_row list \<Rightarrow> fts_row list" where
  "fts_insert row rows = rows @ [row]"

definition next_rowid :: "document_row list \<Rightarrow> nat" where
  "next_rowid rows = Suc (fold max (map rowid rows) 0)"

definition has_id :: "string \<Rightarrow> document_row \<Rightarrow> bool" where
  "has_id i r \<longleftrightarrow> doc_id (columns r) = i"

definition update_document :: "DocumentMetadata \<Rightarrow> store \<Rightarrow> store" where
  "update_document md t =
     t\<lparr>documents :=
         map (\<lambda>r. if has_id (doc_id md) r then r\<lparr>columns := stored_columns md\<rparr> else r)
           (documents t),
       documents_fts :=
         fold (\<lambda>r f. fts_insert (fts_of (r\<lparr>columns := stored_columns md\<rparr>))
                        (fts_delete (rowid r) f))
           (filter (has_id (doc_id md)) (documents t)) (documents_fts t)\<rparr>"

definition insert_document :: "DocumentMetadata \<Rightarrow> store \<Rightarrow> store" where
  "insert_document md t =
     (let new = \<lparr>rowid = next_rowid (documents t), columns = stored_columns md\<rparr>
      in t\<lparr>documents := documents t @ [new],
           documents_fts := fts_insert (fts_of new) (documents_fts t)\<rparr>)"

definition refresh_fts :: "string \<Rightarrow> store \<Rightarrow> store" where
  "refresh_fts i t =
     (let t1 =
            (case find (has_id i) (documents t) of
               Some r \<Rightarrow> t\<lparr>documents_fts := fts_delete (rowid r) (documents_fts t)\<rparr>
             | None \<Rightarrow> t)
      in t1\<lparr>documents_fts :=
              fold (\<lambda>r f. fts_insert (fts_of r) f) (filter (has_id i) (documents t1))
                (documents_fts t1)\<rparr>)"

definition saveDocumentMetadata :: "database \<Rightarrow> DocumentMetadata \<Rightarrow> error + database" where
  "saveDocumentMetadata d md =
     (let t = tables d;
          existingDoc = find (has_id (doc_id md)) (documents t)
      in if \<exists>r \<in> set (documents t). \<not> has_id (doc_id md) r \<and> path (columns r) = path md
         then Inl DatabaseError
         else Inr (d\<lparr>tables :=
                      refresh_fts (doc_id md)
                        (case existingDoc of
                           Some e \<Rightarrow> update_document md t
                         | None \<Rightarrow> insert_document md t)\<rparr>))"

text \<open>
  \<open>saveDocumentChunk\<close> (lines 796-841).  The row keeps the columns of lines 803-829; the
  embedding of the chunk is not among them.  \<open>document_id\<close> references \<open>documents\<close>, so
  the statement fails without that document.  Lines 832-836 append the content and a
  space to the full-text row of the document.  The model takes this \<open>UPDATE\<close> to
  succeed and to change the column \<open>content\<close> of that row and nothing else; what the
  full-text engine does with a table declared over \<open>documents\<close> lies outside the source.
\<close>

definition chunk_row_of :: "DocumentChunk \<Rightarrow> chunk_row" where
  "chunk_row_of chunk =
     \<lparr>chunk_row_id = chunk_id chunk,
      document_id = documentId chunk,
      chunk_content = content chunk,
      index_num = index chunk,
      metadata_text = Some (stringify_metadata (chunk_metadata chunk))\<rparr>"

definition saveDocumentChunk :: "database \<Rightarrow> DocumentChunk \<Rightarrow> error + database" where
  "saveDocumentChunk d chunk =
     (let t = tables d
      in if \<not> (\<exists>r \<in> set (documents t). has_id (documentId chunk) r) then Inl DatabaseError
         else
           let chunks' =
                 (if \<exists>r \<in> set (document_chunks t). chunk_row_id r = chunk_id chunk
                  then map (\<lambda>r. if chunk_row_id r = chunk_id chunk then chunk_row_of chunk else r)
                         (document_chunks t)
                  else document_chunks t @ [chunk_row_of chunk]);
               fts' =
                 (case find (has_id (documentId chunk)) (documents t) of
                    Some r \<Rightarrow>
                      map (\<lambda>f. if fts_rowid f = rowid r
                                then f\<lparr>fts_content := fts_content f @ content chunk @ '' ''\<rparr>
                                else f)
                        (documents_fts t)
                  | None \<Rightarrow> documents_fts t)
           in Inr (d\<lparr>tables := t\<lparr>document_chunks := chunks', documents_fts := fts'\<rparr>\<rparr>))"

subsection \<open>Reading and deleting a document\<close>

text \<open>
  \<open>getDocumentContent\<close> (lines 1760-1773): the rows of the document ordered by
  \<open>index_num\<close>, their contents joined by an empty line.  The query of the model has no
  failure, so the \<open>catch\<close> of line 1770 is never entered.
\<close>

definition getDocumentContent :: "database \<Rightarrow> string \<Rightarrow> error + string" where
  "getDocumentContent d docId =
     (let chunks = sort_key index_num
                     (filter (\<lambda>r. document_id r = docId) (document_chunks (tables d)))
      in Inr (join [newline, newline] (map chunk_content chunks)))"

text \<open>
  \<open>deleteDocument\<close> (lines 1776-1833).  The three \<open>DELETE\<close> statements and \<open>COMMIT\<close>
  are numbered 0 to 3; \<open>fault\<close> is the statement at which the driver raises (an
  input/output error), if any.  The trigger \<open>documents_ad\<close> removes the full-text row
  of a deleted document.  The block of lines 1782-1804 sends deletions to the vector
  service and writes nothing to the database.  The \<open>catch\<close> of line 1828 rolls back
  and throws a \<open>DatabaseError\<close>; a \<open>ROLLBACK\<close> that fails throws its own error.
\<close>

definition delete_statements :: "nat option \<Rightarrow> string \<Rightarrow> store \<Rightarrow> error + bool \<times> store" where
  "delete_statements fault docId t =
     (if fault = Some 0 then Inl SqliteError
      else
        let t1 = t\<lparr>relationships :=
                     filter (\<lambda>r. \<not> (source_id r = docId \<and> source_type r = ''DOCUMENT''))
                       (relationships t)\<rparr>
        in if fault = Some 1 then Inl SqliteError
           else
             let t2 = t1\<lparr>document_chunks :=
                           filter (\<lambda>r. document_id r \<noteq> docId) (document_chunks t1)\<rparr>
             in if fault = Some 2 then Inl SqliteError
                else
                  let deleted = filter (has_id docId) (documents t2);
                      t3 = t2\<lparr>documents := filter (\<lambda>r. \<not> has_id docId r) (documents t2),
                              documents_fts :=
                                fold (\<lambda>r f. fts_delete (rowid r) f) deleted (documents_fts t2)\<rparr>
                  in Inr (deleted \<noteq> [], t3))"

definition delete_catch :: "database \<Rightarrow> (error + bool) \<times> database" where
  "delete_catch d =
     (case exec_rollback d of
        Inl e \<Rightarrow> (Inl e, d)
      | Inr d' \<Rightarrow> (Inl DatabaseError, d'))"

definition deleteDocument :: "nat option \<Rightarrow> database \<Rightarrow> string \<Rightarrow> (error + bool) \<times> database" where
  "deleteDocument fault d docId =
     (case exec_begin d of
        Inl e \<Rightarrow> delete_catch d
      | Inr d1 \<Rightarrow>
          (case delete_statements fault docId (tables d1) of
             Inl e \<Rightarrow> delete_catch d1
           | Inr (changed, t3) \<Rightarrow>
               if fault = Some 3 then delete_catch (d1\<lparr>tables := t3\<rparr>)
               else (case exec_commit (d1\<lparr>tables := t3\<rparr>) of
                       Inl e \<Rightarrow> delete_catch (d1\<lparr>tables := t3\<rparr>)
                     | Inr d2 \<Rightarrow> (Inr changed, d2))))"

section \<open>Search results and options\<close>

text \<open>
  \<open>SearchResult\<close> (lines 51-59); \<open>result_row\<close> holds the columns of the document, from
  which the title, the path, the type and the metadata of the result are read.  The
  options of \<open>searchDocuments\<close>, \<open>indexDocument\<close> and \<open>indexDirectory\<close> follow; a list
  of types that is absent or empty is \<open>[]\<close>.
\<close>

record SearchResult =
  result_documentId :: string
  result_row :: DocumentMetadata
  relevance :: real
  snippet :: string

record search_options =
  limit :: "nat option"
  offset :: "nat option"
  types :: "DocumentType list"
  startDate :: "nat option"
  endDate :: "nat option"
  search_tags :: "string list"
  useSemanticSearch :: bool

record index_options =
  generateEmbeddings :: bool
  extractKeyPoints :: bool
  generateSummary :: bool
  option_tags :: "string list option"

record directory_options =
  recursive :: bool
  fileTypes :: "DocumentType list"
  index_with :: index_options
  maxFiles :: "nat option"

section \<open>The environment\<close>

text \<open>
  What the service reads from outside: library functions, the collaborators, the clock
  and the file system.  \<open>sha256\<close> is \<open>CryptoJS.SHA256(x).toString()\<close>; \<open>json_parse\<close> is
  \<open>JSON.parse\<close>, \<open>None\<close> for a text it rejects; \<open>sendChatMessage\<close> is the completion
  service asked for the concepts of a text, \<open>None\<close> when the call is rejected;
  \<open>import_openai\<close> tells whether loading that service succeeds; \<open>embed\<close> is the
  embedding model, \<open>None\<close> when it fails; \<open>vector_query\<close> is the query of the vector
  service, which returns the id, the score and the \<open>documentId\<close> of each match, \<open>None\<close>
  when the call is rejected; \<open>summarize\<close> and \<open>key_points\<close> are the
  results of \<open>generateSummary\<close> and \<open>extractKeyPoints\<close> (lines 844-1024), which catch
  every failure of the collaborator and fall back to the text itself; \<open>now\<close> is
  \<open>new Date()\<close>.  \<open>root\<close> is the file system; \<open>fileTypeFromBuffer\<close>, \<open>pdfParse\<close>,
  \<open>excel_text\<close>, \<open>csv_text\<close>, \<open>word_text\<close> and \<open>remark\<close> are the parsers behind
  \<open>detectFileType\<close> and lines 442-546, given the bytes of the file, \<open>None\<close> or \<open>False\<close>
  when they throw.  \<open>extractSnippet\<close> is the function of lines 1675-1723, which builds a
  regular expression from the words of the query and throws when that fails.
  \<open>fullTextSearch\<close> is the result of the query of lines 1450-1473, which the ranking
  of the full-text engine decides.
\<close>

datatype node =
    File nat nat nat "string option"
      \<comment> \<open>size, birth time, modification time, and the bytes when the file can be read\<close>
  | Directory "(string \<times> node) list"
  | Broken
      \<comment> \<open>a name whose \<open>statSync\<close> fails: a dangling link\<close>

record env =
  sha256 :: "string \<Rightarrow> string"
  json_parse :: "string \<Rightarrow> json option"
  import_openai :: bool
  sendChatMessage :: "string \<Rightarrow> string option"
  embed :: "string \<Rightarrow> real list option"
  vector_query :: "real list \<Rightarrow> nat \<Rightarrow> DocumentType list \<Rightarrow> (string \<times> real \<times> string option) list option"
  summarize :: "string \<Rightarrow> string"
  key_points :: "string \<Rightarrow> string list"
  now :: nat
  root :: node
  fileTypeFromBuffer :: "string \<Rightarrow> string option"
  pdfParse :: "string \<Rightarrow> (string \<times> nat \<times> string option) option"
  excel_text :: "string \<Rightarrow> string option"
  csv_text :: "string \<Rightarrow> string option"
  word_text :: "string \<Rightarrow> string option"
  remark :: "string \<Rightarrow> bool"
  extractSnippet :: "string \<Rightarrow> string \<Rightarrow> string option"
  fullTextSearch :: "store \<Rightarrow> string \<Rightarrow> search_options \<Rightarrow> SearchResult list option"

section \<open>Concepts and relationships\<close>

text \<open>
  \<open>toLowerCase\<close> and \<open>toUpperCase\<close> on the letters of ASCII; other code units are kept.
  \<open>as_string\<close> is the receiver of such a call: anything but a string has no such
  method.  \<open>bind_description\<close> is \<open>concept.description || null\<close> as a bound parameter:
  the driver binds strings, numbers and \<open>null\<close> only.
\<close>

definition toLowerCase :: "string \<Rightarrow> string" where
  "toLowerCase s =
     map (\<lambda>c. if 65 \<le> (of_char c :: nat) \<and> (of_char c :: nat) \<le> 90
               then char_of (of_char c + 32 :: nat) else c) s"

definition toUpperCase :: "string \<Rightarrow> string" where
  "toUpperCase s =
     map (\<lambda>c. if 97 \<le> (of_char c :: nat) \<and> (of_char c :: nat) \<le> 122
               then char_of (of_char c - 32 :: nat) else c) s"

definition as_string :: "json option \<Rightarrow> error + string" where
  "as_string v = (case v of Some (JString s) \<Rightarrow> Inr s | _ \<Rightarrow> Inl TypeError)"

definition bind_description :: "json option \<Rightarrow> error + json option" where
  "bind_description v =
     (if \<not> truthy v then Inr None
      else (case v of
              Some (JString s) \<Rightarrow> Inr (Some (JString s))
            | Some (JNumber x) \<Rightarrow> Inr (Some (JNumber x))
            | _ \<Rightarrow> Inl TypeError))"

definition contains_id :: "env \<Rightarrow> string \<Rightarrow> string \<Rightarrow> string" where
  "contains_id env docId conceptId = sha256 env (docId @ ''_'' @ conceptId @ ''_CONTAINS'')"

definition related_id :: "env \<Rightarrow> string \<Rightarrow> string \<Rightarrow> string" where
  "related_id env concept1Id concept2Id =
     sha256 env (concept1Id @ ''_'' @ concept2Id @ ''_RELATED'')"

text \<open>
  \<open>INSERT OR REPLACE INTO relationships\<close>: the rows in conflict with the new one, on the
  primary key or on \<open>UNIQUE(source_id, target_id, relationship_type)\<close>, are deleted.
\<close>

definition insert_or_replace :: "relationship_row \<Rightarrow> relationship_row list \<Rightarrow> relationship_row list" where
  "insert_or_replace new rows =
     filter (\<lambda>r. relationship_id r \<noteq> relationship_id new \<and>
                 \<not> (source_id r = source_id new \<and> target_id r = target_id new \<and>
                    relationship_type r = relationship_type new)) rows @ [new]"

definition contains_row :: "env \<Rightarrow> string \<Rightarrow> string \<Rightarrow> string \<Rightarrow> nat \<Rightarrow> relationship_row" where
  "contains_row env docId conceptId ctype freq =
     \<lparr>relationship_id = contains_id env docId conceptId,
      source_id = docId, source_type = ''DOCUMENT'',
      target_id = conceptId, target_type = ctype,
      relationship_type = ''CONTAINS'', weight = of_nat freq\<rparr>"

text \<open>
  One round of the loop of lines 1111-1148.  An error leaves the loop for the \<open>catch\<close>,
  which rolls the transaction back, so the tables at the error are not returned.  The
  column \<open>name\<close> of \<open>concepts\<close> is \<open>UNIQUE\<close>.
\<close>

definition store_concept :: "env \<Rightarrow> string \<Rightarrow> json \<Rightarrow> store \<Rightarrow> error + store" where
  "store_concept env docId concept t =
     (case property concept ''name'' of
        Inl e \<Rightarrow> Inl e
      | Inr name \<Rightarrow>
     (case property concept ''type'' of
        Inl e \<Rightarrow> Inl e
      | Inr ctype \<Rightarrow>
          if \<not> truthy name \<or> \<not> truthy ctype then Inr t
          else
     (case as_string name of
        Inl e \<Rightarrow> Inl e
      | Inr n \<Rightarrow>
          let conceptId = sha256 env (toLowerCase n);
              existingConcept = find (\<lambda>c. concept_id c = conceptId) (concepts t)
          in
     (case as_string ctype of
        Inl e \<Rightarrow> Inl e
      | Inr ty \<Rightarrow>
     (case existingConcept of
        Some e \<Rightarrow>
          Inr (t\<lparr>concepts :=
                    map (\<lambda>c. if concept_id c = conceptId then c\<lparr>frequency := frequency c + 1\<rparr> else c)
                      (concepts t),
                  relationships :=
                    insert_or_replace
                      (contains_row env docId conceptId (toUpperCase ty) (frequency e + 1))
                      (relationships t)\<rparr>)
      | None \<Rightarrow>
     (case property concept ''description'' of
        Inl e \<Rightarrow> Inl e
      | Inr dv \<Rightarrow>
     (case bind_description dv of
        Inl e \<Rightarrow> Inl e
      | Inr desc \<Rightarrow>
          if \<exists>c \<in> set (concepts t). concept_name c = n then Inl SqliteError
          else
            Inr (t\<lparr>concepts :=
                      concepts t @
                      [\<lparr>concept_id = conceptId, concept_name = n, concept_type = toUpperCase ty,
                        description = desc, frequency = 1\<rparr>],
                    relationships :=
                      insert_or_replace (contains_row env docId conceptId (toUpperCase ty) 1)
                        (relationships t)\<rparr>))))))))"

fun store_concepts :: "env \<Rightarrow> string \<Rightarrow> json list \<Rightarrow> store \<Rightarrow> error + store" where
  "store_concepts env docId [] t = Inr t"
| "store_concepts env docId (concept # rest) t =
     (case store_concept env docId concept t of
        Inl e \<Rightarrow> Inl e
      | Inr t' \<Rightarrow> store_concepts env docId rest t')"

text \<open>
  The loops of lines 1151-1184: \<open>relate\<close> is one round for the pair \<open>(i, j)\<close>,
  \<open>relate_later\<close> the loop over \<open>j\<close> and \<open>relate_all\<close> the loop over \<open>i\<close>.
\<close>

definition relate :: "env \<Rightarrow> json \<Rightarrow> json \<Rightarrow> store \<Rightarrow> error + store" where
  "relate env concept1 concept2 t =
     (case property concept1 ''name'' of
        Inl e \<Rightarrow> Inl e
      | Inr name1 \<Rightarrow>
          if \<not> truthy name1 then Inr t
          else
     (case property concept2 ''name'' of
        Inl e \<Rightarrow> Inl e
      | Inr name2 \<Rightarrow>
          if \<not> truthy name2 then Inr t
          else
     (case as_string name1 of
        Inl e \<Rightarrow> Inl e
      | Inr n1 \<Rightarrow>
     (case as_string name2 of
        Inl e \<Rightarrow> Inl e
      | Inr n2 \<Rightarrow>
          let concept1Id = sha256 env (toLowerCase n1);
              concept2Id = sha256 env (toLowerCase n2);
              relationshipId = related_id env concept1Id concept2Id
          in
            if \<exists>r \<in> set (relationships t). relationship_id r = relationshipId
            then Inr (t\<lparr>relationships :=
                           map (\<lambda>r. if relationship_id r = relationshipId
                                     then r\<lparr>weight := weight r + 1 / 2\<rparr> else r)
                             (relationships t)\<rparr>)
            else
     (case property concept1 ''type'' of
        Inl e \<Rightarrow> Inl e
      | Inr type1 \<Rightarrow>
     (case as_string type1 of
        Inl e \<Rightarrow> Inl e
      | Inr ty1 \<Rightarrow>
     (case property concept2 ''type'' of
        Inl e \<Rightarrow> Inl e
      | Inr type2 \<Rightarrow>
     (case as_string type2 of
        Inl e \<Rightarrow> Inl e
      | Inr ty2 \<Rightarrow>
          if \<exists>r \<in> set (relationships t).
               source_id r = concept1Id \<and> target_id r = concept2Id \<and>
               relationship_type r = ''RELATED''
          then Inl SqliteError
          else
            Inr (t\<lparr>relationships :=
                      relationships t @
                      [\<lparr>relationship_id = relationshipId,
                        source_id = concept1Id, source_type = toUpperCase ty1,
                        target_id = concept2Id, target_type = toUpperCase ty2,
                        relationship_type = ''RELATED'', weight = 1\<rparr>]\<rparr>)))))))))"

fun relate_later :: "env \<Rightarrow> json \<Rightarrow> json list \<Rightarrow> store \<Rightarrow> error + store" where
  "relate_later env concept1 [] t = Inr t"
| "relate_later env concept1 (concept2 # rest) t =
     (case relate env concept1 concept2 t of
        Inl e \<Rightarrow> Inl e
      | Inr t' \<Rightarrow> relate_later env concept1 rest t')"

fun relate_all :: "env \<Rightarrow> json list \<Rightarrow> store \<Rightarrow> error + store" where
  "relate_all env [] t = Inr t"
| "relate_all env (concept1 # rest) t =
     (case relate_later env concept1 rest t of
        Inl e \<Rightarrow> Inl e
      | Inr t' \<Rightarrow> relate_all env rest t')"

text \<open>
  \<open>processConceptsChunk\<close> (lines 1081-1197).  \<open>inner_catch\<close> is the \<open>catch\<close> of line
  1189, which also takes every error raised between \<open>BEGIN\<close> and \<open>COMMIT\<close>;
  \<open>outer_catch\<close> is the one of line 1193, which takes a rejected call of the
  collaborator and an error raised inside the inner \<open>catch\<close>.  An error raised
  inside the outer \<open>catch\<close> leaves the function.
\<close>

definition outer_catch :: "database \<Rightarrow> (error + unit) \<times> database" where
  "outer_catch d =
     (case exec_rollback d of
        Inl e \<Rightarrow> (Inl e, d)
      | Inr d' \<Rightarrow> (Inr (), d'))"

definition inner_catch :: "database \<Rightarrow> (error + unit) \<times> database" where
  "inner_catch d =
     (case exec_rollback d of
        Inl e \<Rightarrow> outer_catch d
      | Inr d' \<Rightarrow> (Inr (), d'))"

definition processConceptsChunk :: "env \<Rightarrow> database \<Rightarrow> string \<Rightarrow> string \<Rightarrow> (error + unit) \<times> database" where
  "processConceptsChunk env d slice docId =
     (case sendChatMessage env slice of
        None \<Rightarrow> outer_catch d
      | Some response \<Rightarrow>
          (case json_parse env response of
             None \<Rightarrow> inner_catch d
           | Some (JArray conceptsData) \<Rightarrow>
               (case exec_begin d of
                  Inl e \<Rightarrow> inner_catch d
                | Inr d1 \<Rightarrow>
                    (case store_concepts env docId conceptsData (tables d1) of
                       Inl e \<Rightarrow> inner_catch d1
                     | Inr t1 \<Rightarrow>
                         (case relate_all env conceptsData t1 of
                            Inl e \<Rightarrow> inner_catch d1
                          | Inr t2 \<Rightarrow>
                              (case exec_commit (d1\<lparr>tables := t2\<rparr>) of
                                 Inl e \<Rightarrow> inner_catch (d1\<lparr>tables := t2\<rparr>)
                               | Inr d2 \<Rightarrow> (Inr (), d2)))))
           | Some other \<Rightarrow> (Inr (), d)))"

text \<open>
  \<open>splitTextIntoChunks\<close> (lines 1027-1056), the loop as in \<open>chunk_loop\<close>, and
  \<open>extractConcepts\<close> (lines 1059-1078): the slices of a text of more than 10000
  characters are processed in order; an error of one slice leaves the loop, and the
  \<open>catch\<close> of line 1074 ends the call without an error.  \<open>concept_slices\<close> names
  the texts that are sent to the collaborator: the slices, or the whole text.
\<close>

fun split_loop :: "nat \<Rightarrow> nat \<Rightarrow> string list \<Rightarrow> string \<Rightarrow> string list" where
  "split_loop maxLen overlap [] current =
     (if trim current \<noteq> [] then [current] else [])"
| "split_loop maxLen overlap (paragraph # rest) current =
     (if trim paragraph = [] then split_loop maxLen overlap rest current
      else if length current + length paragraph > maxLen \<and> length current > 0
      then current #
           split_loop maxLen overlap rest
             (if overlap > 0 then overlap_words overlap current @ '' '' @ paragraph
              else paragraph)
      else split_loop maxLen overlap rest
             (current @ (if current \<noteq> [] then [newline, newline] else []) @ paragraph))"

definition splitTextIntoChunks :: "string \<Rightarrow> nat \<Rightarrow> nat \<Rightarrow> string list" where
  "splitTextIntoChunks body maxLen overlap =
     split_loop maxLen overlap (split_paragraphs body) []"

fun process_slices :: "env \<Rightarrow> database \<Rightarrow> string \<Rightarrow> string list \<Rightarrow> (error + unit) \<times> database" where
  "process_slices env d docId [] = (Inr (), d)"
| "process_slices env d docId (slice # rest) =
     (case processConceptsChunk env d slice docId of
        (Inl e, d') \<Rightarrow> (Inl e, d')
      | (Inr u, d') \<Rightarrow> process_slices env d' docId rest)"


definition extractConcepts :: "env \<Rightarrow> database \<Rightarrow> string \<Rightarrow> string \<Rightarrow> database" where
  "extractConcepts env d body docId =
     (if \<not> import_openai env then d
      else if length body > 10000
      then snd (process_slices env d docId (splitTextIntoChunks body 10000 0))
      else snd (processConceptsChunk env d body docId))"

section \<open>Files\<close>

text \<open>
  Paths are resolved from \<open>root\<close> along their components.  \<open>stat\<close> is \<open>statSync\<close>,
  \<open>None\<close> when it throws; \<open>existsSync\<close> and \<open>readFileSync\<close> follow.  \<open>basename\<close> and
  \<open>extname\<close> are those of the \<open>path\<close> module, and \<open>join_path\<close> is \<open>join\<close> of a directory
  and a name; the segments \<open>.\<close> and \<open>..\<close> are not resolved.  \<open>has_substring\<close> is
  \<open>String.includes\<close>.
\<close>

definition components :: "string \<Rightarrow> string list" where
  "components p = filter (\<lambda>c. c \<noteq> []) (split_on CHR ''/'' p)"

fun lookup :: "node \<Rightarrow> string list \<Rightarrow> node option" where
  "lookup n [] = Some n"
| "lookup (Directory entries) (c # cs) =
     (case map_of entries c of None \<Rightarrow> None | Some n \<Rightarrow> lookup n cs)"
| "lookup n (c # cs) = None"

definition stat :: "env \<Rightarrow> string \<Rightarrow> node option" where
  "stat env p =
     (case lookup (root env) (components p) of
        Some Broken \<Rightarrow> None
      | r \<Rightarrow> r)"

definition existsSync :: "env \<Rightarrow> string \<Rightarrow> bool" where
  "existsSync env p \<longleftrightarrow> stat env p \<noteq> None"

definition readFileSync :: "env \<Rightarrow> string \<Rightarrow> string option" where
  "readFileSync env p =
     (case stat env p of
        Some (File sz birth mtime bytes) \<Rightarrow> bytes
      | _ \<Rightarrow> None)"

definition basename :: "string \<Rightarrow> string" where
  "basename p = (case components p of [] \<Rightarrow> [] | cs \<Rightarrow> last cs)"

definition extname :: "string \<Rightarrow> string" where
  "extname p =
     (let parts = split_on CHR ''.'' (basename p)
      in if length parts \<le> 1 \<or> join ''.'' (butlast parts) = [] then []
         else CHR ''.'' # last parts)"

definition join_path :: "string \<Rightarrow> string \<Rightarrow> string" where
  "join_path dir name = (if dir \<noteq> [] \<and> last dir = CHR ''/'' then dir @ name else dir @ ''/'' @ name)"

fun has_substring :: "string \<Rightarrow> string \<Rightarrow> bool" where
  "has_substring pat [] = (pat = [])"
| "has_substring pat (c # cs) = (take (length pat) (c # cs) = pat \<or> has_substring pat cs)"

text \<open>\<open>detectFileType\<close> of a path (lines 321-373); every failure gives \<open>unknown\<close>.\<close>

definition detectFileType :: "env \<Rightarrow> string \<Rightarrow> DocumentType" where
  "detectFileType env filePath =
     (let ext = toLowerCase (extname filePath)
      in if ext = ''.pdf'' then Pdf
         else if ext = ''.xlsx'' \<or> ext = ''.xls'' then Excel
         else if ext = ''.csv'' then Csv
         else if ext = ''.docx'' \<or> ext = ''.doc'' then Word
         else if ext = ''.txt'' then Text
         else if ext = ''.md'' \<or> ext = ''.markdown'' then Markdown
         else (case readFileSync env filePath of
                 None \<Rightarrow> Unknown
               | Some buffer \<Rightarrow>
                   (case fileTypeFromBuffer env buffer of
                      None \<Rightarrow> Unknown
                    | Some mime \<Rightarrow>
                        if has_substring ''pdf'' mime then Pdf
                        else if has_substring ''excel'' mime \<or> has_substring ''spreadsheet'' mime then Excel
                        else if has_substring ''word'' mime then Word
                        else if has_substring ''text'' mime then Text
                        else Unknown)))"

text \<open>
  \<open>processFile\<close> (lines 376-439).  \<open>count_words\<close> is
  \<open>content.split(/\s+/).filter(Boolean).length\<close>, the number of runs of characters that
  are not white space.  Every failure leaves as a \<open>FileProcessingError\<close>.
\<close>

fun count_runs :: "bool \<Rightarrow> string \<Rightarrow> nat" where
  "count_runs inside [] = 0"
| "count_runs inside (c # cs) =
     (if is_space c then count_runs False cs
      else (if inside then 0 else 1) + count_runs True cs)"

definition count_words :: "string \<Rightarrow> nat" where
  "count_words s = count_runs False s"

record extracted =
  x_content :: string
  x_type :: DocumentType
  x_size :: nat
  x_created :: nat
  x_modified :: nat
  x_pageCount :: "nat option"
  x_author :: "string option"
  x_wordCount :: nat

definition extraction :: "DocumentType \<Rightarrow> nat \<Rightarrow> nat \<Rightarrow> nat \<Rightarrow> string \<Rightarrow> nat option \<Rightarrow> string option \<Rightarrow> extracted" where
  "extraction ty sz birth mtime body pages who =
     \<lparr>x_content = body, x_type = ty, x_size = sz, x_created = birth, x_modified = mtime,
      x_pageCount = pages, x_author = who, x_wordCount = count_words body\<rparr>"

definition processFile :: "env \<Rightarrow> string \<Rightarrow> error + extracted" where
  "processFile env filePath =
     (case stat env filePath of
        Some (File sz birth mtime bytes) \<Rightarrow>
          (let fileType = detectFileType env filePath
           in case bytes of
                None \<Rightarrow> Inl FileProcessingError
              | Some b \<Rightarrow>
                  (case fileType of
                     Pdf \<Rightarrow>
                       (case pdfParse env b of
                          None \<Rightarrow> Inl FileProcessingError
                        | Some (body, pages, who) \<Rightarrow>
                            Inr (extraction fileType sz birth mtime body (Some pages) who))
                   | Excel \<Rightarrow>
                       (case excel_text env b of
                          None \<Rightarrow> Inl FileProcessingError
                        | Some body \<Rightarrow> Inr (extraction fileType sz birth mtime body None None))
                   | Csv \<Rightarrow>
                       (case csv_text env b of
                          None \<Rightarrow> Inl FileProcessingError
                        | Some body \<Rightarrow> Inr (extraction fileType sz birth mtime body None None))
                   | Word \<Rightarrow>
                       (case word_text env b of
                          None \<Rightarrow> Inl FileProcessingError
                        | Some body \<Rightarrow> Inr (extraction fileType sz birth mtime body None None))
                   | Text \<Rightarrow> Inr (extraction fileType sz birth mtime b None None)
                   | Markdown \<Rightarrow>
                       if remark env b then Inr (extraction fileType sz birth mtime b None None)
                       else Inl FileProcessingError
                   | Unknown \<Rightarrow> Inr (extraction fileType sz birth mtime b None None)))
      | _ \<Rightarrow> Inl FileProcessingError)"

section \<open>The service\<close>

datatype IndexingStatus = Idle | Indexing | Paused | Completed | Failed

record IndexingProgress =
  total_files :: nat
  processed :: nat
  failed :: nat
  status :: IndexingStatus
  progress_error :: "error option"
  startTime :: "nat option"
  endTime :: "nat option"

record service =
  db :: database
  settings :: config
  vectorStore :: bool
  embeddingModel :: bool
  indexingProgress :: IndexingProgress

subsection \<open>Indexing a document\<close>

text \<open>
  \<open>indexDocument\<close> (lines 625-709).  \<open>save_chunks\<close> is the loop of lines 670-697 and
  \<open>with_embedding\<close> its lines 671-693: the embedding is put on the chunk when it is asked
  for and the model answers; the upsert into the vector service writes nothing to the
  database, and a failure of either is caught at line 690.  The statements run outside a transaction, so what was written
  before an error stays.  The errors that leave are \<open>KnowledgeBaseError\<close>s and are
  thrown on as they are.
\<close>

definition with_embedding :: "env \<Rightarrow> index_options \<Rightarrow> DocumentChunk \<Rightarrow> DocumentChunk" where
  "with_embedding env options chunk =
     (if generateEmbeddings options
      then (case embed env (take 8192 (content chunk)) of
              None \<Rightarrow> chunk
            | Some v \<Rightarrow> chunk\<lparr>embedding := Some v\<rparr>)
      else chunk)"

fun save_chunks :: "env \<Rightarrow> index_options \<Rightarrow> database \<Rightarrow> DocumentChunk list \<Rightarrow> (error + unit) \<times> database" where
  "save_chunks env options d [] = (Inr (), d)"
| "save_chunks env options d (chunk # rest) =
     (case saveDocumentChunk d (with_embedding env options chunk) of
        Inl e \<Rightarrow> (Inl e, d)
      | Inr d' \<Rightarrow> save_chunks env options d' rest)"

definition document_metadata :: "env \<Rightarrow> string \<Rightarrow> index_options \<Rightarrow> extracted \<Rightarrow> DocumentMetadata" where
  "document_metadata env filePath options x =
     (let md =
            \<lparr>doc_id = sha256 env filePath,
             title = basename filePath,
             path = filePath,
             doc_type = x_type x,
             doc_size = x_size x,
             created = x_created x,
             modified = x_modified x,
             indexed = now env,
             author = None,
             tags = Some (case option_tags options of Some ts \<Rightarrow> ts | None \<Rightarrow> []),
             summary = None,
             keyPoints = None,
             pageCount = x_pageCount x,
             wordCount = Some (x_wordCount x)\<rparr>;
          md1 = (if generateSummary options then md\<lparr>summary := Some (summarize env (x_content x))\<rparr>
                 else md)
      in if extractKeyPoints options then md1\<lparr>keyPoints := Some (key_points env (x_content x))\<rparr>
         else md1)"

definition indexDocument :: "env \<Rightarrow> service \<Rightarrow> string \<Rightarrow> index_options \<Rightarrow> (error + string) \<times> service" where
  "indexDocument env svc filePath options =
     (case processFile env filePath of
        Inl e \<Rightarrow> (Inl e, svc)
      | Inr x \<Rightarrow>
          (let documentMetadata = document_metadata env filePath options x
           in case saveDocumentMetadata (db svc) documentMetadata of
                Inl e \<Rightarrow> (Inl e, svc)
              | Inr d1 \<Rightarrow>
                  (case save_chunks env options d1
                          (chunkDocument (settings svc) (x_content x) documentMetadata) of
                     (Inl e, d2) \<Rightarrow> (Inl e, svc\<lparr>db := d2\<rparr>)
                   | (Inr u, d2) \<Rightarrow>
                       (Inr (sha256 env filePath),
                        svc\<lparr>db := extractConcepts env d2 (x_content x) (sha256 env filePath)\<rparr>))))"

subsection \<open>Searching\<close>

text \<open>
  \<open>semanticSearch\<close> (lines 1502-1649) and \<open>searchDocuments\<close> (lines 1379-1402).
  \<open>like_embedding\<close> is \<open>metadata LIKE '%"embedding":%'\<close>, which does not distinguish the
  case of ASCII letters and is false for \<open>NULL\<close>.  \<open>joined_chunks\<close> is the join of lines
  1587-1594.  \<open>similarity_of\<close> is the function of lines 1603-1617, whose \<open>catch\<close> gives
  0; an array with an entry that is not a number has no similarity in the model and
  also gives 0.  \<open>Array.sort\<close> is stable, as \<open>sort_key\<close> is.
\<close>

fun contains_ci :: "string \<Rightarrow> string \<Rightarrow> bool" where
  "contains_ci pat [] = (pat = [])"
| "contains_ci pat (c # cs) =
     (toLowerCase (take (length pat) (c # cs)) = toLowerCase pat \<or> contains_ci pat cs)"

definition like_embedding :: "string option \<Rightarrow> bool" where
  "like_embedding m =
     (case m of None \<Rightarrow> False | Some s \<Rightarrow> contains_ci ([CHR 0x22] @ ''embedding'' @ [CHR 0x22] @ '':'') s)"

definition joined_chunks :: "store \<Rightarrow> (chunk_row \<times> document_row) list" where
  "joined_chunks t =
     concat (map (\<lambda>c. map (\<lambda>r. (c, r)) (filter (has_id (document_id c)) (documents t)))
                 (filter (\<lambda>c. like_embedding (metadata_text c)) (document_chunks t)))"

fun numbers :: "json list \<Rightarrow> real list option" where
  "numbers [] = Some []"
| "numbers (JNumber x # rest) = (case numbers rest of None \<Rightarrow> None | Some xs \<Rightarrow> Some (x # xs))"
| "numbers (v # rest) = None"

definition similarity_of :: "env \<Rightarrow> real list \<Rightarrow> chunk_row \<Rightarrow> real" where
  "similarity_of env queryEmbedding c =
     (case json_parse env (case metadata_text c of Some s \<Rightarrow> if s = [] then ''{}'' else s
                                                | None \<Rightarrow> ''{}'') of
        None \<Rightarrow> 0
      | Some metadata \<Rightarrow>
          (case property metadata ''embedding'' of
             Inl e \<Rightarrow> 0
           | Inr (Some (JArray xs)) \<Rightarrow>
               (case numbers xs of
                  None \<Rightarrow> 0
                | Some v \<Rightarrow>
                    (case cosineSimilarity queryEmbedding v of Inl e \<Rightarrow> 0 | Inr x \<Rightarrow> x))
           | Inr other \<Rightarrow> 0))"

definition snippet_source :: "string \<Rightarrow> DocumentMetadata \<Rightarrow> string" where
  "snippet_source chunk_text row =
     (if chunk_text \<noteq> [] then chunk_text
      else (case summary row of Some a \<Rightarrow> a | None \<Rightarrow> []))"

fun format_results :: "env \<Rightarrow> string \<Rightarrow> ((chunk_row \<times> document_row) \<times> real) list \<Rightarrow> error + SearchResult list" where
  "format_results env query [] = Inr []"
| "format_results env query (((c, r), similarity) # rest) =
     (case extractSnippet env (snippet_source (chunk_content c) (columns r)) query of
        None \<Rightarrow> Inl KnowledgeBaseError
      | Some sn \<Rightarrow>
          (case format_results env query rest of
             Inl e \<Rightarrow> Inl e
           | Inr results \<Rightarrow>
               Inr (\<lparr>result_documentId = document_id c, result_row = columns r,
                     relevance = similarity, snippet = sn\<rparr> # results)))"

definition memory_search :: "env \<Rightarrow> store \<Rightarrow> real list \<Rightarrow> string \<Rightarrow> search_options \<Rightarrow> error + SearchResult list" where
  "memory_search env t queryEmbedding query options =
     (let chunks = joined_chunks t;
          filteredChunks =
            (if types options \<noteq> []
             then filter (\<lambda>(c, r). doc_type (columns r) \<in> set (types options)) chunks
             else chunks);
          results = map (\<lambda>(c, r). ((c, r), similarity_of env queryEmbedding c)) filteredChunks;
          skip = (case offset options of Some n \<Rightarrow> n | None \<Rightarrow> 0);
          page = (case limit options of Some n \<Rightarrow> if n = 0 then 10 else n | None \<Rightarrow> 10);
          sortedResults = take page (drop skip (sort_key (\<lambda>(x, similarity). - similarity) results))
      in format_results env query sortedResults)"

fun hydrate :: "env \<Rightarrow> store \<Rightarrow> string \<Rightarrow> (string \<times> real \<times> string option) list \<Rightarrow> error + SearchResult list" where
  "hydrate env t query [] = Inr []"
| "hydrate env t query ((match_id, score, match_document) # rest) =
     (case match_document of
        None \<Rightarrow> hydrate env t query rest
      | Some docId \<Rightarrow>
          (if docId = [] then hydrate env t query rest
           else (case find (has_id docId) (documents t) of
                   None \<Rightarrow> hydrate env t query rest
                 | Some r \<Rightarrow>
                     (case extractSnippet env
                             (snippet_source
                                (case find (\<lambda>c. chunk_row_id c = match_id) (document_chunks t) of
                                   Some c \<Rightarrow> chunk_content c | None \<Rightarrow> [])
                                (columns r)) query of
                        None \<Rightarrow> Inl KnowledgeBaseError
                      | Some sn \<Rightarrow>
                          (case hydrate env t query rest of
                             Inl e \<Rightarrow> Inl e
                           | Inr results \<Rightarrow>
                               Inr (\<lparr>result_documentId = docId, result_row = columns r,
                                     relevance = score, snippet = sn\<rparr> # results))))))"

definition semanticSearch :: "env \<Rightarrow> service \<Rightarrow> string \<Rightarrow> search_options \<Rightarrow> error + SearchResult list" where
  "semanticSearch env svc query options =
     (case embed env (take 8192 query) of
        None \<Rightarrow> Inl KnowledgeBaseError
      | Some queryEmbedding \<Rightarrow>
          if vectorStore svc
          then (let skip = (case offset options of Some n \<Rightarrow> n | None \<Rightarrow> 0);
                    page = (case limit options of Some n \<Rightarrow> if n = 0 then 10 else n | None \<Rightarrow> 10)
                in case vector_query env queryEmbedding (page + skip) (types options) of
                     None \<Rightarrow> Inl KnowledgeBaseError
                   | Some matches \<Rightarrow> hydrate env (tables (db svc)) query (drop skip matches))
          else memory_search env (tables (db svc)) queryEmbedding query options)"

definition searchDocuments :: "env \<Rightarrow> service \<Rightarrow> string \<Rightarrow> search_options \<Rightarrow> error + SearchResult list" where
  "searchDocuments env svc query options =
     (if useSemanticSearch options \<and> embeddingModel svc
      then (case semanticSearch env svc query options of
              Inl e \<Rightarrow> Inl KnowledgeBaseError
            | Inr results \<Rightarrow> Inr results)
      else (case fullTextSearch env (tables (db svc)) query options of
              None \<Rightarrow> Inl KnowledgeBaseError
            | Some results \<Rightarrow> Inr results))"

subsection \<open>Indexing a directory\<close>

text \<open>
  \<open>getFilesInDirectory\<close> (lines 1288-1301): \<open>walk\<close> goes through the entries that
  \<open>readdirSync\<close> lists; \<open>statSync\<close> of an entry is its node, and throws for a broken
  one.  \<open>indexDirectory\<close> (lines 1200-1285): the files of a batch are indexed one after
  the other, in the order of the list; \<open>index_file\<close> is the function of lines 1253-1269.
  \<open>files_to_process\<close> is the selection of lines 1226-1241.  The status \<open>Failed\<close> is the
  \<open>'error'\<close> of line 1279.  The progress callback observes and is left out.  With a batch
  width of 0 the loop of line 1251 does not advance, and the call does not return:
  \<open>None\<close>.
\<close>

fun walk :: "bool \<Rightarrow> string \<Rightarrow> (string \<times> node) list \<Rightarrow> error + string list" where
  "walk deep dirPath [] = Inr []"
| "walk deep dirPath ((name, Broken) # rest) = Inl Error"
| "walk deep dirPath ((name, Directory entries) # rest) =
     (if deep
      then (case walk deep (join_path dirPath name) entries of
              Inl e \<Rightarrow> Inl e
            | Inr inner \<Rightarrow>
                (case walk deep dirPath rest of
                   Inl e \<Rightarrow> Inl e
                 | Inr others \<Rightarrow> Inr (inner @ others)))
      else walk deep dirPath rest)"
| "walk deep dirPath ((name, File sz birth mtime bytes) # rest) =
     (case walk deep dirPath rest of
        Inl e \<Rightarrow> Inl e
      | Inr others \<Rightarrow> Inr (join_path dirPath name # others))"

definition getFilesInDirectory :: "env \<Rightarrow> string \<Rightarrow> bool \<Rightarrow> error + string list" where
  "getFilesInDirectory env dirPath deep =
     (case stat env dirPath of
        Some (Directory entries) \<Rightarrow> walk deep dirPath entries
      | _ \<Rightarrow> Inl Error)"

definition index_file :: "env \<Rightarrow> index_options \<Rightarrow> string \<Rightarrow> service \<Rightarrow> service" where
  "index_file env options file svc =
     (case indexDocument env svc file options of
        (Inr docId, svc') \<Rightarrow>
          svc'\<lparr>indexingProgress :=
                 (indexingProgress svc')\<lparr>processed := processed (indexingProgress svc') + 1\<rparr>\<rparr>
      | (Inl e, svc') \<Rightarrow>
          svc'\<lparr>indexingProgress :=
                 (indexingProgress svc')\<lparr>failed := failed (indexingProgress svc') + 1\<rparr>\<rparr>)"

function batches :: "nat \<Rightarrow> 'a list \<Rightarrow> 'a list list" where
  "batches batchSize xs =
     (if batchSize = 0 \<or> xs = [] then []
      else take batchSize xs # batches batchSize (drop batchSize xs))"
  by pat_completeness auto
termination
  by (relation "measure (\<lambda>(batchSize, xs). length xs)") auto

definition files_to_process :: "env \<Rightarrow> directory_options \<Rightarrow> string list \<Rightarrow> string list" where
  "files_to_process env options files =
     (let filtered =
            (if fileTypes options \<noteq> []
             then filter (\<lambda>file. detectFileType env file \<in> set (fileTypes options)) files
             else files)
      in case maxFiles options of
           Some n \<Rightarrow> if n > 0 then take n filtered else filtered
         | None \<Rightarrow> filtered)"

definition indexDirectory :: "env \<Rightarrow> service \<Rightarrow> string \<Rightarrow> directory_options \<Rightarrow> ((error + IndexingProgress) \<times> service) option" where
  "indexDirectory env svc dirPath options =
     (if \<not> existsSync env dirPath then Some (Inl KnowledgeBaseError, svc)
      else
        let svc1 = svc\<lparr>indexingProgress :=
                         \<lparr>total_files = 0, processed = 0, failed = 0, status = Indexing,
                          progress_error = None, startTime = Some (now env), endTime = None\<rparr>\<rparr>
        in case getFilesInDirectory env dirPath (recursive options) of
             Inl e \<Rightarrow>
               Some (Inl KnowledgeBaseError,
                     svc1\<lparr>indexingProgress :=
                            (indexingProgress svc1)\<lparr>status := Failed, progress_error := Some e,
                                                     endTime := Some (now env)\<rparr>\<rparr>)
           | Inr files \<Rightarrow>
               let filesToProcess = files_to_process env options files;
                   svc2 = svc1\<lparr>indexingProgress :=
                                 (indexingProgress svc1)\<lparr>total_files := length filesToProcess\<rparr>\<rparr>;
                   batchSize = maxConcurrentProcessing (settings svc)
               in if batchSize = 0 \<and> filesToProcess \<noteq> [] then None
                  else
                    let svc3 = fold (\<lambda>batch s. fold (index_file env (index_with options)) batch s)
                                 (batches batchSize filesToProcess) svc2;
                        svc4 = svc3\<lparr>indexingProgress :=
                                      (indexingProgress svc3)\<lparr>status := Completed,
                                                               endTime := Some (now env)\<rparr>\<rparr>
                    in Some (Inr (indexingProgress svc4), svc4))"

section \<open>Sequences of extraction passes\<close>





section \<open>Invariants of the document tables\<close>



section \<open>Example data\<close>


definition example_metadata :: DocumentMetadata where
  "example_metadata =
     \<lparr>doc_id = ''d1'', title = ''notes.body'', path = ''/docs/notes.body'', doc_type = Text,
      doc_size = 0, created = 0, modified = 0, indexed = 0, author = None, tags = Some [],
      summary = None, keyPoints = None, pageCount = None, wordCount = None\<rparr>"


definition example_store :: store where
  "example_store =
     \<lparr>documents = [\<lparr>rowid = 1, columns = example_metadata\<rparr>],
      document_chunks =
        [\<lparr>chunk_row_id = ''chunk_d1_1'', document_id = ''d1'', chunk_content = ''second'',
          index_num = 1, metadata_text = None\<rparr>,
         \<lparr>chunk_row_id = ''chunk_d2_0'', document_id = ''d2'', chunk_content = ''other'',
          index_num = 0, metadata_text = None\<rparr>,
         \<lparr>chunk_row_id = ''chunk_d1_0'', document_id = ''d1'', chunk_content = ''first'',
          index_num = 0, metadata_text = None\<rparr>],
      documents_fts =
        [\<lparr>fts_rowid = 1, fts_title = ''notes.txt'', fts_content = ''first second '',
          fts_tags = ''[]'', fts_summary = []\<rparr>],
      concepts =
        [\<lparr>concept_id = ''c1'', concept_name = ''Logic'', concept_type = ''TOPIC'',
          description = None, frequency = 2\<rparr>],
      relationships =
        [\<lparr>relationship_id = ''r1'', source_id = ''d1'', source_type = ''DOCUMENT'',
          target_id = ''c1'', target_type = ''TOPIC'', relationship_type = ''CONTAINS'',
          weight = 2\<rparr>,
         \<lparr>relationship_id = ''r2'', source_id = ''d2'', source_type = ''DOCUMENT'',
          target_id = ''c1'', target_type = ''TOPIC'', relationship_type = ''CONTAINS'',
          weight = 1\<rparr>]\<rparr>"

definition example_database :: database where
  "example_database = \<lparr>tables = example_store, snapshot = None\<rparr>"

text \<open>
  An environment for the examples.  Its digest writes \<open>x\<close> before every character and
  \<open>uu\<close> for an underscore; its completion service answers every text with one reply,
  which parses to two concepts; every other text is rejected by the parser.
\<close>

definition example_hash :: "string \<Rightarrow> string" where
  "example_hash s = concat (map (\<lambda>c. if c = CHR ''_'' then ''uu'' else [CHR ''x'', c]) s)"

definition example_concepts :: "json list" where
  "example_concepts =
     [JObject [(''name'', JString ''Logic''), (''type'', JString ''topic'')],
      JObject [(''name'', JString ''Sets''), (''type'', JString ''concept''),
               (''description'', JString ''collections'')]]"

definition example_env :: env where
  "example_env =
     \<lparr>sha256 = example_hash,
      json_parse = (\<lambda>s. if s = ''reply'' then Some (JArray example_concepts) else None),
      import_openai = True,
      sendChatMessage = (\<lambda>s. Some ''reply''),
      embed = (\<lambda>s. Some [1, 0]),
      vector_query = (\<lambda>v k ts. Some []),
      summarize = (\<lambda>s. s),
      key_points = (\<lambda>s. []),
      now = 1000,
      root = Directory [(''docs'', Directory
               [(''a.txt'', File 5 10 20 (Some ''alpha'')),
                (''b.txt'', File 4 10 20 (Some ''beta'')),
                (''c.txt'', File 5 10 20 (Some ''gamma''))])],
      fileTypeFromBuffer = (\<lambda>s. None),
      pdfParse = (\<lambda>s. None),
      excel_text = (\<lambda>s. None),
      csv_text = (\<lambda>s. None),
      word_text = (\<lambda>s. None),
      remark = (\<lambda>s. True),
      extractSnippet = (\<lambda>s q. Some (take 200 s)),
      fullTextSearch = (\<lambda>t q opts. Some [])\<rparr>"

definition empty_store :: store where
  "empty_store =
     \<lparr>documents = [], document_chunks = [], documents_fts = [], concepts = [],
      relationships = []\<rparr>"

definition empty_database :: database where
  "empty_database = \<lparr>tables = empty_store, snapshot = None\<rparr>"

definition example_service :: service where
  "example_service =
     \<lparr>db = empty_database, settings = make_config None None None, vectorStore = False,
      embeddingModel = True,
      indexingProgress =
        \<lparr>total_files = 0, processed = 0, failed = 0, status = Idle, progress_error = None,
         startTime = None, endTime = None\<rparr>\<rparr>"

definition example_options :: index_options where
  "example_options =
     \<lparr>generateEmbeddings = True, extractKeyPoints = False, generateSummary = False,
      option_tags = None\<rparr>"


text \<open>
  The same environment with a directory \<open>/docs\<close> that holds a file and a dangling link;
  the options of a search by meaning and of a run over a directory.
\<close>

definition dangling_env :: env where
  "dangling_env =
     example_env\<lparr>root := Directory [(''docs'', Directory
       [(''a.txt'', File 5 10 20 (Some ''alpha'')), (''gone'', Broken)])]\<rparr>"

definition example_search_options :: search_options where
  "example_search_options =
     \<lparr>limit = None, offset = None, types = [], startDate = None, endDate = None,
      search_tags = [], useSemanticSearch = True\<rparr>"

definition example_directory_options :: directory_options where
  "example_directory_options =
     \<lparr>recursive = False, fileTypes = [],
      index_with = \<lparr>generateEmbeddings = False, extractKeyPoints = False,
                    generateSummary = False, option_tags = None\<rparr>,
      maxFiles = None\<rparr>"

section \<open>Properties of cosine similarity\<close>












section \<open>Properties of chunking\<close>





















section \<open>Properties of reading and deleting\<close>

lemma getDocumentContent_none:
  assumes "\<forall>r \<in> set (document_chunks (tables d)). document_id r \<noteq> docId"
  shows "getDocumentContent d docId = Inr []"
proof -
  have "filter (\<lambda>r. document_id r = docId) (document_chunks (tables d)) = []"
    using assms by (simp add: filter_empty_conv)
  then show ?thesis by (simp add: getDocumentContent_def)
qed

text \<open>
  Claim C10.  For a document id with no stored chunk row, in particular an id the store
  does not know, \<open>getDocumentContent\<close> returns the empty string and does not fail.  For
  every document id it returns the contents of the stored chunk rows of that document,
  in the order of their chunk index, joined by an empty line.
\<close>

theorem getDocumentContent_ordered:
  "((\<forall>r \<in> set (document_chunks (tables d)). document_id r \<noteq> docId)
      \<longrightarrow> getDocumentContent d docId = Inr []) \<and>
   (\<exists>rows. getDocumentContent d docId = Inr (join [newline, newline] (map chunk_content rows)) \<and>
      sorted (map index_num rows) \<and>
      mset rows = mset (filter (\<lambda>r. document_id r = docId) (document_chunks (tables d))))"
proof (intro conjI impI)
  assume "\<forall>r \<in> set (document_chunks (tables d)). document_id r \<noteq> docId"
  then show "getDocumentContent d docId = Inr []" by (rule getDocumentContent_none)
next
  let ?rows = "sort_key index_num (filter (\<lambda>r. document_id r = docId) (document_chunks (tables d)))"
  have "getDocumentContent d docId = Inr (join [newline, newline] (map chunk_content ?rows))"
    by (simp add: getDocumentContent_def)
  moreover have "sorted (map index_num ?rows)" by (rule sorted_sort_key)
  moreover have "mset ?rows = mset (filter (\<lambda>r. document_id r = docId) (document_chunks (tables d)))"
    by simp
  ultimately show "\<exists>rows. getDocumentContent d docId = Inr (join [newline, newline] (map chunk_content rows)) \<and>
      sorted (map index_num rows) \<and>
      mset rows = mset (filter (\<lambda>r. document_id r = docId) (document_chunks (tables d)))"
    by blast
qed

theorem getDocumentContent_ordered_witness:
  "getDocumentContent example_database ''d9'' = Inr [] \<and>
   getDocumentContent example_database ''d1'' = Inr (''first'' @ [newline, newline] @ ''second'') \<and>
   (\<exists>rows. getDocumentContent example_database ''d1'' =
        Inr (join [newline, newline] (map chunk_content rows)) \<and>
      sorted (map index_num rows) \<and>
      mset rows = mset (filter (\<lambda>r. document_id r = ''d1'')
                         (document_chunks (tables example_database))))"
proof -
  have none: "\<forall>r \<in> set (document_chunks (tables example_database)). document_id r \<noteq> ''d9''"
    by (simp add: example_database_def example_store_def)
  have val: "getDocumentContent example_database ''d1'' =
      Inr (''first'' @ [newline, newline] @ ''second'')"
    by (simp add: getDocumentContent_def example_database_def example_store_def)
  show ?thesis
    using getDocumentContent_ordered [of example_database "''d9''", THEN conjunct1, THEN mp, OF none]
      val getDocumentContent_ordered [of example_database "''d1''", THEN conjunct2]
    by (intro conjI)
qed

lemma delete_statements_ok:
  "delete_statements None docId t =
     Inr (filter (has_id docId) (documents t) \<noteq> [],
          t\<lparr>relationships :=
                filter (\<lambda>r. \<not> (source_id r = docId \<and> source_type r = ''DOCUMENT'')) (relationships t),
            document_chunks := filter (\<lambda>r. document_id r \<noteq> docId) (document_chunks t),
            documents := filter (\<lambda>r. \<not> has_id docId r) (documents t),
            documents_fts :=
              fold (\<lambda>r f. fts_delete (rowid r) f) (filter (has_id docId) (documents t))
                (documents_fts t)\<rparr>)"
  by (simp add: delete_statements_def Let_def)

lemma deleteDocument_ok:
  assumes "snapshot d = None"
  shows "deleteDocument None d docId =
     (Inr (\<exists>r \<in> set (documents (tables d)). has_id docId r),
      \<lparr>tables = (tables d)\<lparr>relationships :=
                filter (\<lambda>r. \<not> (source_id r = docId \<and> source_type r = ''DOCUMENT''))
                  (relationships (tables d)),
            document_chunks := filter (\<lambda>r. document_id r \<noteq> docId) (document_chunks (tables d)),
            documents := filter (\<lambda>r. \<not> has_id docId r) (documents (tables d)),
            documents_fts :=
              fold (\<lambda>r f. fts_delete (rowid r) f) (filter (has_id docId) (documents (tables d)))
                (documents_fts (tables d))\<rparr>,
       snapshot = None\<rparr>)"
  using assms
  by (simp add: deleteDocument_def exec_begin_def exec_commit_def delete_statements_ok
      filter_empty_conv)

lemma delete_statements_fault:
  "k \<le> 2 \<Longrightarrow> delete_statements (Some k) docId t = Inl SqliteError"
  by (cases "k = 0"; cases "k = 1"; cases "k = 2") (auto simp: delete_statements_def Let_def)

lemma delete_statements_fault3:
  "\<exists>r. delete_statements (Some 3) docId t = Inr r"
  by (simp add: delete_statements_def Let_def)

lemma deleteDocument_fault:
  assumes "snapshot d = None" and "k \<le> 3"
  shows "deleteDocument (Some k) d docId = (Inl DatabaseError, d)"
proof (cases "k = 3")
  case True
  obtain c t3 where "delete_statements (Some 3) docId (tables d) = Inr (c, t3)"
    using delete_statements_fault3 [of docId "tables d"] by auto
  with assms True show ?thesis
    by (simp add: deleteDocument_def exec_begin_def delete_catch_def exec_rollback_def)
next
  case False
  with assms have "k \<le> 2" by simp
  from delete_statements_fault [OF this] assms show ?thesis
    by (simp add: deleteDocument_def exec_begin_def delete_catch_def exec_rollback_def)
qed

text \<open>
  Claim C4.  With no transaction open, \<open>deleteDocument\<close> returns whether a document row
  with the id was stored (\<open>true\<close> for a stored document) and ends with the
  transaction committed: no chunk row of the document is left, no relationship row
  with the document as its source and source type \<open>DOCUMENT\<close> is left (so no
  \<open>CONTAINS\<close> row of the document, these being the rows with that source type), the
  rows of other documents and the concepts are kept, and a second call on the result
  returns \<open>false\<close>.  When one of the statements of the transaction fails, the call
  throws a \<open>DatabaseError\<close> and the database is what it was before the call.
\<close>

theorem deleteDocument_cascade:
  "snapshot d = None \<longrightarrow>
     (\<exists>d'. deleteDocument None d docId =
              (Inr (\<exists>r \<in> set (documents (tables d)). has_id docId r), d') \<and>
        snapshot d' = None \<and>
        document_chunks (tables d') =
          filter (\<lambda>r. document_id r \<noteq> docId) (document_chunks (tables d)) \<and>
        relationships (tables d') =
          filter (\<lambda>r. \<not> (source_id r = docId \<and> source_type r = ''DOCUMENT''))
            (relationships (tables d)) \<and>
        documents (tables d') = filter (\<lambda>r. \<not> has_id docId r) (documents (tables d)) \<and>
        concepts (tables d') = concepts (tables d) \<and>
        (\<forall>r \<in> set (document_chunks (tables d')). document_id r \<noteq> docId) \<and>
        ((\<forall>r \<in> set (relationships (tables d)).
             relationship_type r = ''CONTAINS'' \<longrightarrow> source_type r = ''DOCUMENT'')
           \<longrightarrow> (\<forall>r \<in> set (relationships (tables d')).
                  \<not> (relationship_type r = ''CONTAINS'' \<and> source_id r = docId))) \<and>
        fst (deleteDocument None d' docId) = Inr False) \<and>
     (\<forall>k \<le> 3. deleteDocument (Some k) d docId = (Inl DatabaseError, d))"
proof (intro impI conjI allI)
  assume noTx: "snapshot d = None"
  let ?d' = "snd (deleteDocument None d docId)"
  have eq: "deleteDocument None d docId =
      (Inr (\<exists>r \<in> set (documents (tables d)). has_id docId r), ?d')"
    by (simp add: deleteDocument_ok [OF noTx])
  have s: "snapshot ?d' = None" by (simp add: deleteDocument_ok [OF noTx])
  have again: "fst (deleteDocument None ?d' docId) = Inr False"
    using deleteDocument_ok [OF s, of docId] by (simp add: deleteDocument_ok [OF noTx])
  show "\<exists>d'. deleteDocument None d docId =
              (Inr (\<exists>r \<in> set (documents (tables d)). has_id docId r), d') \<and>
        snapshot d' = None \<and>
        document_chunks (tables d') =
          filter (\<lambda>r. document_id r \<noteq> docId) (document_chunks (tables d)) \<and>
        relationships (tables d') =
          filter (\<lambda>r. \<not> (source_id r = docId \<and> source_type r = ''DOCUMENT''))
            (relationships (tables d)) \<and>
        documents (tables d') = filter (\<lambda>r. \<not> has_id docId r) (documents (tables d)) \<and>
        concepts (tables d') = concepts (tables d) \<and>
        (\<forall>r \<in> set (document_chunks (tables d')). document_id r \<noteq> docId) \<and>
        ((\<forall>r \<in> set (relationships (tables d)).
             relationship_type r = ''CONTAINS'' \<longrightarrow> source_type r = ''DOCUMENT'')
           \<longrightarrow> (\<forall>r \<in> set (relationships (tables d')).
                  \<not> (relationship_type r = ''CONTAINS'' \<and> source_id r = docId))) \<and>
        fst (deleteDocument None d' docId) = Inr False"
    using eq s again
    by (intro exI [of _ ?d']) (auto simp: deleteDocument_ok [OF noTx])
next
  fix k :: nat
  assume "snapshot d = None" "k \<le> 3"
  then show "deleteDocument (Some k) d docId = (Inl DatabaseError, d)"
    by (rule deleteDocument_fault)
qed

theorem deleteDocument_cascade_witness:
  "fst (deleteDocument None example_database ''d1'') = Inr True \<and>
   map chunk_row_id (document_chunks (tables (snd (deleteDocument None example_database ''d1''))))
     = [''chunk_d2_0''] \<and>
   map relationship_id (relationships (tables (snd (deleteDocument None example_database ''d1''))))
     = [''r2''] \<and>
   \<not> (\<exists>r \<in> set (relationships (tables (snd (deleteDocument None example_database ''d1'')))).
        relationship_type r = ''CONTAINS'' \<and> source_id r = ''d1'') \<and>
   fst (deleteDocument None (snd (deleteDocument None example_database ''d1'')) ''d1'') = Inr False \<and>
   deleteDocument (Some 1) example_database ''d1'' = (Inl DatabaseError, example_database)"
proof -
  have h: "snapshot example_database = None"
    by (simp add: example_database_def)
  have inv: "\<forall>r \<in> set (relationships (tables example_database)).
      relationship_type r = ''CONTAINS'' \<longrightarrow> source_type r = ''DOCUMENT''"
    by (simp add: example_database_def example_store_def)
  have ex: "\<exists>r \<in> set (documents (tables example_database)). has_id ''d1'' r"
    by (simp add: example_database_def example_store_def example_metadata_def has_id_def)
  note t = deleteDocument_cascade [of example_database "''d1''", THEN mp, OF h]
  from t [THEN conjunct1] obtain d' where
    d': "deleteDocument None example_database ''d1'' =
           (Inr (\<exists>r \<in> set (documents (tables example_database)). has_id ''d1'' r), d')"
    and chunks: "document_chunks (tables d') =
          filter (\<lambda>r. document_id r \<noteq> ''d1'') (document_chunks (tables example_database))"
    and rels: "relationships (tables d') =
          filter (\<lambda>r. \<not> (source_id r = ''d1'' \<and> source_type r = ''DOCUMENT''))
            (relationships (tables example_database))"
    and contains: "(\<forall>r \<in> set (relationships (tables example_database)).
             relationship_type r = ''CONTAINS'' \<longrightarrow> source_type r = ''DOCUMENT'')
           \<longrightarrow> (\<forall>r \<in> set (relationships (tables d')).
                  \<not> (relationship_type r = ''CONTAINS'' \<and> source_id r = ''d1''))"
    and again: "fst (deleteDocument None d' ''d1'') = Inr False"
    by blast
  from contains [THEN mp, OF inv] d'
  have 6: "\<not> (\<exists>r \<in> set (relationships (tables (snd (deleteDocument None example_database ''d1'')))).
        relationship_type r = ''CONTAINS'' \<and> source_id r = ''d1'')"
    by simp
  have 1: "fst (deleteDocument None example_database ''d1'') = Inr True"
    using d' ex by simp
  have 2: "map chunk_row_id (document_chunks (tables (snd (deleteDocument None example_database ''d1''))))
     = [''chunk_d2_0'']"
    using d' chunks by (simp add: example_database_def example_store_def)
  have 3: "map relationship_id (relationships (tables (snd (deleteDocument None example_database ''d1''))))
     = [''r2'']"
    using d' rels by (simp add: example_database_def example_store_def)
  have 4: "fst (deleteDocument None (snd (deleteDocument None example_database ''d1'')) ''d1'') = Inr False"
    using d' again by simp
  have 5: "deleteDocument (Some 1) example_database ''d1'' = (Inl DatabaseError, example_database)"
    using t [THEN conjunct2, THEN spec, of 1] by simp
  from 1 2 3 6 4 5 show ?thesis by (intro conjI)
qed

section \<open>Properties of the concept graph\<close>





































section \<open>Properties of indexing a document\<close>


























lemma document_metadata_id [simp]:
  "doc_id (document_metadata env filePath options x) = sha256 env filePath"
  by (simp add: document_metadata_def Let_def)













section \<open>Properties of the full-text index\<close>



lemma find_none_filter: "find P rows = None \<Longrightarrow> filter P rows = []"
  by (auto simp: find_None_iff filter_empty_conv)

lemma fts_delete_filter [simp]:
  "filter (\<lambda>f. fts_rowid f = k) (fts_delete k rows) = []"
  by (auto simp: fts_delete_def filter_empty_conv)

lemma fts_of_rowid [simp]: "fts_rowid (fts_of r) = rowid r"
  by (simp add: fts_of_def)

lemma fts_of_content [simp]: "fts_content (fts_of r) = []"
  by (simp add: fts_of_def)

lemma stored_id [simp]: "doc_id (stored_columns md) = doc_id md"
  by (simp add: stored_columns_def)









lemma with_embedding_content [simp]:
  "content (with_embedding env options c) = content c"
  "documentId (with_embedding env options c) = documentId c"
  by (simp_all add: with_embedding_def split: option.splits)





section \<open>Properties of searching by meaning\<close>

lemma with_embedding_cases:
  "\<exists>e. with_embedding env options chunk = chunk\<lparr>embedding := e\<rparr>"
proof (cases "generateEmbeddings options")
  case True
  show ?thesis
  proof (cases "embed env (take 8192 (content chunk))")
    case None
    with True have "with_embedding env options chunk = chunk\<lparr>embedding := embedding chunk\<rparr>"
      by (simp add: with_embedding_def)
    then show ?thesis ..
  next
    case (Some v)
    with True have "with_embedding env options chunk = chunk\<lparr>embedding := Some v\<rparr>"
      by (simp add: with_embedding_def)
    then show ?thesis ..
  qed
next
  case False
  then have "with_embedding env options chunk = chunk\<lparr>embedding := embedding chunk\<rparr>"
    by (simp add: with_embedding_def)
  then show ?thesis ..
qed

lemma chunk_row_of_embedding:
  "chunk_row_of (with_embedding env options chunk) = chunk_row_of chunk"
proof -
  obtain e where "with_embedding env options chunk = chunk\<lparr>embedding := e\<rparr>"
    using with_embedding_cases by blast
  then show ?thesis by (simp add: chunk_row_of_def)
qed

lemma saveDocumentChunk_embedding:
  "saveDocumentChunk d (with_embedding env options chunk) = saveDocumentChunk d chunk"
proof -
  obtain e where w: "with_embedding env options chunk = chunk\<lparr>embedding := e\<rparr>"
    using with_embedding_cases by blast
  have a: "chunk_row_of (chunk\<lparr>embedding := e\<rparr>) = chunk_row_of chunk"
    by (simp add: chunk_row_of_def)
  have b: "content (chunk\<lparr>embedding := e\<rparr>) = content chunk"
    "documentId (chunk\<lparr>embedding := e\<rparr>) = documentId chunk"
    "chunk_id (chunk\<lparr>embedding := e\<rparr>) = chunk_id chunk"
    by simp_all
  show ?thesis unfolding saveDocumentChunk_def w a b ..
qed

lemma save_chunks_embedding:
  "save_chunks env (options\<lparr>generateEmbeddings := b\<rparr>) d chunks = save_chunks env options d chunks"
  by (induction chunks arbitrary: d) (auto simp: saveDocumentChunk_embedding split: sum.splits)

lemma document_metadata_embedding:
  "document_metadata env filePath (options\<lparr>generateEmbeddings := b\<rparr>) x =
   document_metadata env filePath options x"
  by (simp add: document_metadata_def)


text \<open>
  Claim C5, the part on chunks indexed with \<open>generateEmbeddings\<close>.  The row that
  \<open>saveDocumentChunk\<close> writes is the same with and without the embedding that
  \<open>with_embedding\<close> puts on the chunk, and so is the database it returns; hence
  \<open>indexDocument\<close> with \<open>generateEmbeddings\<close> returns the result and the service that it
  returns without.  The embedding is never stored, and the scan of lines 1586-1625, which
  reads the rows whose \<open>metadata\<close> holds an \<open>embedding\<close> key, cannot find it.
\<close>

theorem embeddings_not_stored:
  "chunk_row_of (with_embedding env options chunk) = chunk_row_of chunk \<and>
   saveDocumentChunk d (with_embedding env options chunk) = saveDocumentChunk d chunk \<and>
   indexDocument env svc filePath (options\<lparr>generateEmbeddings := True\<rparr>) =
   indexDocument env svc filePath (options\<lparr>generateEmbeddings := False\<rparr>)"
proof (intro conjI)
  show "chunk_row_of (with_embedding env options chunk) = chunk_row_of chunk"
    by (rule chunk_row_of_embedding)
  show "saveDocumentChunk d (with_embedding env options chunk) = saveDocumentChunk d chunk"
    by (rule saveDocumentChunk_embedding)
  show "indexDocument env svc filePath (options\<lparr>generateEmbeddings := True\<rparr>) =
    indexDocument env svc filePath (options\<lparr>generateEmbeddings := False\<rparr>)"
    unfolding indexDocument_def save_chunks_embedding document_metadata_embedding ..
qed

text \<open>
  The file \<open>/docs/a.txt\<close> indexed with \<open>generateEmbeddings\<close> into empty tables, with an
  embedding model and no vector service: the chunk \<open>alpha\<close> is given the embedding
  \<open>[1, 0]\<close> and its row is stored, and the search by meaning for \<open>alpha\<close> returns no
  result.
\<close>

lemma example_indexed:
  "fst (indexDocument example_env example_service ''/docs/a.txt'' example_options) =
     Inr (sha256 example_env ''/docs/a.txt'')"
  by code_simp

lemma example_embedded:
  "map embedding (map (with_embedding example_env example_options)
     (chunkDocument (settings example_service) ''alpha'' example_metadata)) = [Some [1, 0]]"
  by code_simp

lemma example_chunk_rows:
  "map chunk_content (document_chunks (tables (db (snd
     (indexDocument example_env example_service ''/docs/a.txt'' example_options))))) = [''alpha'']"
  by code_simp

lemma example_joined:
  "joined_chunks (tables (db (snd
     (indexDocument example_env example_service ''/docs/a.txt'' example_options)))) = []"
  by code_simp

lemma example_fallback:
  "embeddingModel (snd (indexDocument example_env example_service ''/docs/a.txt'' example_options)) \<and>
   \<not> vectorStore (snd (indexDocument example_env example_service ''/docs/a.txt'' example_options))"
  by code_simp

theorem semantic_search_misses_chunks:
  "fst (indexDocument example_env example_service ''/docs/a.txt'' example_options) =
     Inr (sha256 example_env ''/docs/a.txt'') \<and>
   generateEmbeddings example_options \<and> \<not> vectorStore example_service \<and>
   map embedding (map (with_embedding example_env example_options)
     (chunkDocument (settings example_service) ''alpha'' example_metadata)) = [Some [1, 0]] \<and>
   map chunk_content (document_chunks (tables (db (snd
     (indexDocument example_env example_service ''/docs/a.txt'' example_options))))) = [''alpha''] \<and>
   useSemanticSearch example_search_options \<and>
   searchDocuments example_env
     (snd (indexDocument example_env example_service ''/docs/a.txt'' example_options))
     ''alpha'' example_search_options = Inr []"
proof -
  let ?R = "indexDocument example_env example_service ''/docs/a.txt'' example_options"
  have a: "fst ?R = Inr (sha256 example_env ''/docs/a.txt'')" by (rule example_indexed)
  have b: "generateEmbeddings example_options" by code_simp
  have b': "\<not> vectorStore example_service" by code_simp
  have c: "map embedding (map (with_embedding example_env example_options)
     (chunkDocument (settings example_service) ''alpha'' example_metadata)) = [Some [1, 0]]"
    by (rule example_embedded)
  have d: "map chunk_content (document_chunks (tables (db (snd ?R)))) = [''alpha'']"
    by (rule example_chunk_rows)
  have u: "useSemanticSearch example_search_options" by code_simp
  have j: "joined_chunks (tables (db (snd ?R))) = []" by (rule example_joined)
  have m: "embeddingModel (snd ?R) \<and> \<not> vectorStore (snd ?R)" by (rule example_fallback)
  have e: "embed example_env (take 8192 ''alpha'') = Some [1, 0]" by (simp add: example_env_def)
  have s: "searchDocuments example_env (snd ?R) ''alpha'' example_search_options = Inr []"
    using j m e
    by (simp add: searchDocuments_def semanticSearch_def memory_search_def
        example_search_options_def)
  from a b b' c d u s show ?thesis by (intro conjI)
qed


text \<open>The two calls on \<open>/docs/a.txt\<close>.\<close>

theorem embeddings_not_stored_witness:
  "indexDocument example_env example_service ''/docs/a.txt''
     (example_options\<lparr>generateEmbeddings := True\<rparr>) =
   indexDocument example_env example_service ''/docs/a.txt''
     (example_options\<lparr>generateEmbeddings := False\<rparr>)"
  using embeddings_not_stored [of example_env example_options
      "new_chunk example_metadata ''alpha'' 0" empty_database example_service "''/docs/a.txt''"]
  by (elim conjE)

section \<open>Properties of indexing a directory\<close>

lemma indexDocument_keeps:
  "indexingProgress (snd (indexDocument env svc f options)) = indexingProgress svc \<and>
   settings (snd (indexDocument env svc f options)) = settings svc"
  by (auto simp: indexDocument_def Let_def split: sum.splits prod.splits)

lemma index_file_failure:
  assumes "indexDocument env svc f options = (Inl e, svc')"
  shows "failed (indexingProgress (index_file env options f svc)) =
      failed (indexingProgress svc) + 1 \<and>
    processed (indexingProgress (index_file env options f svc)) =
      processed (indexingProgress svc) \<and>
    total_files (indexingProgress (index_file env options f svc)) =
      total_files (indexingProgress svc)"
  using assms indexDocument_keeps [of env svc f options] by (simp add: index_file_def)

lemma index_file_success:
  assumes "indexDocument env svc f options = (Inr i, svc')"
  shows "processed (indexingProgress (index_file env options f svc)) =
      processed (indexingProgress svc) + 1 \<and>
    failed (indexingProgress (index_file env options f svc)) =
      failed (indexingProgress svc) \<and>
    total_files (indexingProgress (index_file env options f svc)) =
      total_files (indexingProgress svc)"
  using assms indexDocument_keeps [of env svc f options] by (simp add: index_file_def)

lemma index_file_counts:
  "total_files (indexingProgress (index_file env options f svc)) =
     total_files (indexingProgress svc) \<and>
   processed (indexingProgress (index_file env options f svc)) +
   failed (indexingProgress (index_file env options f svc)) =
     Suc (processed (indexingProgress svc) + failed (indexingProgress svc))"
proof (cases "indexDocument env svc f options")
  case (Pair r svc')
  show ?thesis
  proof (cases r)
    case (Inl e)
    with Pair index_file_failure [of env svc f options e svc'] show ?thesis by simp
  next
    case (Inr i)
    with Pair index_file_success [of env svc f options i svc'] show ?thesis by simp
  qed
qed

lemma fold_index_file_counts:
  "total_files (indexingProgress (fold (index_file env options) files svc)) =
     total_files (indexingProgress svc) \<and>
   processed (indexingProgress (fold (index_file env options) files svc)) +
   failed (indexingProgress (fold (index_file env options) files svc)) =
     processed (indexingProgress svc) + failed (indexingProgress svc) + length files"
proof (induction files arbitrary: svc)
  case Nil
  show ?case by simp
next
  case (Cons f fs)
  show ?case using Cons.IH [of "index_file env options f svc"] index_file_counts [of env options f svc]
    by simp
qed

lemma concat_batches: "0 < n \<Longrightarrow> concat (batches n xs) = xs"
proof (induction n xs rule: batches.induct)
  case (1 batchSize xs)
  show ?case
  proof (cases "xs = []")
    case True
    then show ?thesis by (subst batches.simps) simp
  next
    case False
    with 1 have "concat (batches batchSize (drop batchSize xs)) = drop batchSize xs" by blast
    moreover have "batches batchSize xs = take batchSize xs # batches batchSize (drop batchSize xs)"
      using False 1(2) by (subst batches.simps) simp
    ultimately show ?thesis by (simp del: batches.simps)
  qed
qed

lemma fold_concat_batches:
  "fold (\<lambda>batch s. fold f batch s) bs s = fold f (concat bs) s"
  by (induction bs arbitrary: s) simp_all

lemma fold_batches:
  "0 < n \<Longrightarrow> fold (\<lambda>batch s. fold f batch s) (batches n xs) s = fold f xs s"
  by (simp add: fold_concat_batches concat_batches del: batches.simps)

text \<open>
  Claim C3, as the code has it, for a positive batch width.  \<open>indexDirectory\<close> throws,
  with the service as it was, when the path does not exist; it also throws, with the
  status \<open>'error'\<close>, when the path exists and the enumeration of its files fails.  When
  the enumeration gives a list of files, the call returns a progress whose total is the
  number of the selected files, whose processed and failed counts add up to the total
  and whose status is \<open>'completed'\<close>, whichever files fail.  A file whose \<open>indexDocument\<close>
  throws adds one to the failed count and leaves the processed count; a file that is
  indexed adds one to the processed count and leaves the failed count.
\<close>

theorem indexDirectory_progress:
  assumes "0 < maxConcurrentProcessing (settings svc)"
  shows "(\<not> existsSync env dirPath \<longrightarrow>
      indexDirectory env svc dirPath options = Some (Inl KnowledgeBaseError, svc)) \<and>
    (\<forall>e. existsSync env dirPath \<and> getFilesInDirectory env dirPath (recursive options) = Inl e \<longrightarrow>
      (\<exists>svc'. indexDirectory env svc dirPath options = Some (Inl KnowledgeBaseError, svc') \<and>
         status (indexingProgress svc') = Failed)) \<and>
    (\<forall>files. existsSync env dirPath \<and>
        getFilesInDirectory env dirPath (recursive options) = Inr files \<longrightarrow>
      (\<exists>p svc'. indexDirectory env svc dirPath options = Some (Inr p, svc') \<and>
         total_files p = length (files_to_process env options files) \<and>
         processed p + failed p = total_files p \<and> status p = Completed)) \<and>
    (\<forall>s f e s'. indexDocument env s f (index_with options) = (Inl e, s') \<longrightarrow>
       failed (indexingProgress (index_file env (index_with options) f s)) =
         failed (indexingProgress s) + 1 \<and>
       processed (indexingProgress (index_file env (index_with options) f s)) =
         processed (indexingProgress s)) \<and>
    (\<forall>s f i s'. indexDocument env s f (index_with options) = (Inr i, s') \<longrightarrow>
       processed (indexingProgress (index_file env (index_with options) f s)) =
         processed (indexingProgress s) + 1 \<and>
       failed (indexingProgress (index_file env (index_with options) f s)) =
         failed (indexingProgress s))"
proof (intro conjI allI impI)
  show "indexDirectory env svc dirPath options = Some (Inl KnowledgeBaseError, svc)"
    if "\<not> existsSync env dirPath"
    using that by (simp add: indexDirectory_def)
  show "\<exists>svc'. indexDirectory env svc dirPath options = Some (Inl KnowledgeBaseError, svc') \<and>
         status (indexingProgress svc') = Failed"
    if "existsSync env dirPath \<and> getFilesInDirectory env dirPath (recursive options) = Inl e" for e
    using that by (simp add: indexDirectory_def Let_def)
  show "\<exists>p svc'. indexDirectory env svc dirPath options = Some (Inr p, svc') \<and>
         total_files p = length (files_to_process env options files) \<and>
         processed p + failed p = total_files p \<and> status p = Completed"
    if h: "existsSync env dirPath \<and> getFilesInDirectory env dirPath (recursive options) = Inr files"
    for files
  proof -
    let ?fs = "files_to_process env options files"
    let ?svc2 = "svc\<lparr>indexingProgress :=
        \<lparr>total_files = length ?fs, processed = 0, failed = 0, status = Indexing,
         progress_error = None, startTime = Some (now env), endTime = None\<rparr>\<rparr>"
    let ?svc3 = "fold (index_file env (index_with options)) ?fs ?svc2"
    let ?svc4 = "?svc3\<lparr>indexingProgress :=
        (indexingProgress ?svc3)\<lparr>status := Completed, endTime := Some (now env)\<rparr>\<rparr>"
    from h assms have run: "indexDirectory env svc dirPath options =
        Some (Inr (indexingProgress ?svc4), ?svc4)"
      by (simp add: indexDirectory_def Let_def fold_batches del: batches.simps)
    from fold_index_file_counts [of env "index_with options" ?fs ?svc2]
    have counts: "total_files (indexingProgress ?svc4) = length ?fs \<and>
      processed (indexingProgress ?svc4) + failed (indexingProgress ?svc4) =
        total_files (indexingProgress ?svc4) \<and> status (indexingProgress ?svc4) = Completed"
      by simp
    show ?thesis
      by (rule exI [of _ "indexingProgress ?svc4"], rule exI [of _ ?svc4]) (use run counts in simp)
  qed
  show "failed (indexingProgress (index_file env (index_with options) f s)) =
         failed (indexingProgress s) + 1"
    if "indexDocument env s f (index_with options) = (Inl e, s')" for s f e s'
    using index_file_failure [OF that] by simp
  show "processed (indexingProgress (index_file env (index_with options) f s)) =
         processed (indexingProgress s)"
    if "indexDocument env s f (index_with options) = (Inl e, s')" for s f e s'
    using index_file_failure [OF that] by simp
  show "processed (indexingProgress (index_file env (index_with options) f s)) =
         processed (indexingProgress s) + 1"
    if "indexDocument env s f (index_with options) = (Inr i, s')" for s f i s'
    using index_file_success [OF that] by simp
  show "failed (indexingProgress (index_file env (index_with options) f s)) =
         failed (indexingProgress s)"
    if "indexDocument env s f (index_with options) = (Inr i, s')" for s f i s'
    using index_file_success [OF that] by simp
qed

text \<open>
  The directory \<open>/docs\<close> exists and holds a file and a dangling link: \<open>statSync\<close> of the
  link throws in \<open>getFilesInDirectory\<close>, and \<open>indexDirectory\<close> throws.
\<close>

theorem indexDirectory_counterexample:
  "existsSync dangling_env ''/docs'' \<and>
   stat dangling_env ''/docs'' =
     Some (Directory [(''a.txt'', File 5 10 20 (Some ''alpha'')), (''gone'', Broken)]) \<and>
   map_option fst (indexDirectory dangling_env example_service ''/docs'' example_directory_options) =
     Some (Inl KnowledgeBaseError)"
proof -
  have "stat dangling_env ''/docs'' =
      Some (Directory [(''a.txt'', File 5 10 20 (Some ''alpha'')), (''gone'', Broken)])"
    by code_simp
  moreover have "existsSync dangling_env ''/docs''" by code_simp
  moreover have "map_option fst
      (indexDirectory dangling_env example_service ''/docs'' example_directory_options) =
     Some (Inl KnowledgeBaseError)" by code_simp
  ultimately show ?thesis by (intro conjI)
qed

text \<open>
  A path that does not exist, the directory with the dangling link, the directory of the
  three files, a file that is missing and a file that is indexed.
\<close>

theorem indexDirectory_progress_witness:
  "0 < maxConcurrentProcessing (settings example_service) \<and>
   indexDirectory example_env example_service ''/nope'' example_directory_options =
     Some (Inl KnowledgeBaseError, example_service) \<and>
   (\<exists>svc'. indexDirectory dangling_env example_service ''/docs'' example_directory_options =
       Some (Inl KnowledgeBaseError, svc') \<and> status (indexingProgress svc') = Failed) \<and>
   (\<exists>p svc'. indexDirectory example_env example_service ''/docs'' example_directory_options =
       Some (Inr p, svc') \<and>
       total_files p = length (files_to_process example_env example_directory_options
         [''/docs/a.txt'', ''/docs/b.txt'', ''/docs/c.txt'']) \<and>
       processed p + failed p = total_files p \<and> status p = Completed) \<and>
   length (files_to_process example_env example_directory_options
         [''/docs/a.txt'', ''/docs/b.txt'', ''/docs/c.txt'']) = 3 \<and>
   (failed (indexingProgress (index_file example_env (index_with example_directory_options)
        ''/docs/zzz'' example_service)) = failed (indexingProgress example_service) + 1 \<and>
    processed (indexingProgress (index_file example_env (index_with example_directory_options)
        ''/docs/zzz'' example_service)) = processed (indexingProgress example_service)) \<and>
   (processed (indexingProgress (index_file example_env (index_with example_directory_options)
        ''/docs/a.txt'' example_service)) = processed (indexingProgress example_service) + 1 \<and>
    failed (indexingProgress (index_file example_env (index_with example_directory_options)
        ''/docs/a.txt'' example_service)) = failed (indexingProgress example_service))"
proof -
  let ?o = "example_directory_options"
  have w: "0 < maxConcurrentProcessing (settings example_service)" by code_simp
  have h1: "\<not> existsSync example_env ''/nope''" by code_simp
  have h2: "existsSync dangling_env ''/docs'' \<and>
      getFilesInDirectory dangling_env ''/docs'' (recursive ?o) = Inl Error" by code_simp
  have h3: "existsSync example_env ''/docs'' \<and>
      getFilesInDirectory example_env ''/docs'' (recursive ?o) =
        Inr [''/docs/a.txt'', ''/docs/b.txt'', ''/docs/c.txt'']" by code_simp
  have n: "length (files_to_process example_env ?o
      [''/docs/a.txt'', ''/docs/b.txt'', ''/docs/c.txt'']) = 3" by code_simp
  have f4: "fst (indexDocument example_env example_service ''/docs/zzz'' (index_with ?o)) =
      Inl FileProcessingError" by code_simp
  then have h4: "indexDocument example_env example_service ''/docs/zzz'' (index_with ?o) =
      (Inl FileProcessingError,
       snd (indexDocument example_env example_service ''/docs/zzz'' (index_with ?o)))"
    by (metis prod.collapse)
  have f5: "fst (indexDocument example_env example_service ''/docs/a.txt'' (index_with ?o)) =
      Inr (sha256 example_env ''/docs/a.txt'')" by code_simp
  then have h5: "indexDocument example_env example_service ''/docs/a.txt'' (index_with ?o) =
      (Inr (sha256 example_env ''/docs/a.txt''),
       snd (indexDocument example_env example_service ''/docs/a.txt'' (index_with ?o)))"
    by (metis prod.collapse)
  note c = conjunct2
  note t = indexDirectory_progress [OF w, where options = ?o]
  from w
    t [where env = example_env and dirPath = "''/nope''", THEN conjunct1, THEN mp, OF h1]
    t [where env = dangling_env and dirPath = "''/docs''", THEN c, THEN conjunct1, THEN spec,
      THEN mp, OF h2]
    t [where env = example_env and dirPath = "''/docs''", THEN c, THEN c, THEN conjunct1,
      THEN spec, THEN mp, OF h3]
    n
    t [where env = example_env, THEN c, THEN c, THEN c, THEN conjunct1, rule_format, OF h4]
    t [where env = example_env, THEN c, THEN c, THEN c, THEN c, rule_format, OF h5]
  show ?thesis by (elim conjE) (intro conjI; assumption)
qed

end
